theory Spec2Isabelle
  imports Complex_Main "HOL-Library.Sublist" "HOL-Library.Multiset"
begin

section \<open>Python values, dictionaries and exceptions\<close>

text \<open>
  The services of the backend exchange Python dictionaries whose values are whatever
  \<^verbatim>\<open>json.loads\<close> produced or the literals of the source. A value is modelled by
  \<open>py_value\<close>; a dictionary is an association list in insertion order whose lookup is
  \<open>map_of\<close>. Python floats are modelled as real numbers: comparisons are exact, and the
  rounding of a float subtraction is not part of the model.

  A Python \<^verbatim>\<open>str\<close> whose characters the code inspects (the generated text and the
  values cut from it) is the list of its code points, \<open>py_str\<close>. Disease names,
  dictionary keys and messages, which the code only compares, copies and joins, are
  \<open>string\<close>s; \<open>str_of\<close> gives the code points of one.
\<close>

type_synonym py_str = "nat list"

definition str_of :: "string \<Rightarrow> py_str" where
  "str_of s = map of_char s"

datatype py_value =
    PyNone
  | PyBool bool
  | PyInt int
  | PyFloat real
  | PyStr py_str
  | PyList "py_value list"
  | PyDict "(string \<times> py_value) list"

type_synonym py_dict = "(string \<times> py_value) list"

text \<open>
  Exceptions are values. All constructors stand for subclasses of Python's
  \<^verbatim>\<open>Exception\<close>, which is what the handlers of the source catch.
\<close>

datatype py_exception =
    JSONDecodeError string
  | AttributeError string
  | ValueError string
  | IndexError string
  | RuntimeError string
  | OtherException string

fun str_exc :: "py_exception \<Rightarrow> string" where
  "str_exc (JSONDecodeError m) = m"
| "str_exc (AttributeError m) = m"
| "str_exc (ValueError m) = m"
| "str_exc (IndexError m) = m"
| "str_exc (RuntimeError m) = m"
| "str_exc (OtherException m) = m"

fun is_JSONDecodeError :: "py_exception \<Rightarrow> bool" where
  "is_JSONDecodeError (JSONDecodeError m) = True"
| "is_JSONDecodeError e = False"

text \<open>\<^verbatim>\<open>d.get(key, default)\<close> on a dictionary.\<close>

definition dict_get :: "('k \<times> 'v) list \<Rightarrow> 'k \<Rightarrow> 'v \<Rightarrow> 'v" where
  "dict_get d k dflt = (case map_of d k of Some v \<Rightarrow> v | None \<Rightarrow> dflt)"

section \<open>String operations of the response clean-up\<close>

text \<open>
  The code points that \<^verbatim>\<open>str.strip()\<close> removes, which are those of
  \<^verbatim>\<open>str.isspace\<close>: U+0009 to U+000D, U+001C to U+0020, U+0085, U+00A0, U+1680, U+2000
  to U+200A, U+2028, U+2029, U+202F, U+205F and U+3000.
\<close>

definition is_space :: "nat \<Rightarrow> bool" where
  "is_space c \<longleftrightarrow>
     c \<in> set [0x09, 0x0A, 0x0B, 0x0C, 0x0D, 0x1C, 0x1D, 0x1E, 0x1F, 0x20, 0x85, 0xA0, 0x1680,
              0x2000, 0x2001, 0x2002, 0x2003, 0x2004, 0x2005, 0x2006, 0x2007, 0x2008, 0x2009,
              0x200A, 0x2028, 0x2029, 0x202F, 0x205F, 0x3000]"

definition py_strip :: "py_str \<Rightarrow> py_str" where
  "py_strip s = rev (dropWhile is_space (rev (dropWhile is_space s)))"

definition startswith :: "'a list \<Rightarrow> 'a list \<Rightarrow> bool" where
  "startswith s p \<longleftrightarrow> take (length p) s = p"

definition endswith :: "'a list \<Rightarrow> 'a list \<Rightarrow> bool" where
  "endswith s p \<longleftrightarrow> length p \<le> length s \<and> drop (length s - length p) s = p"

text \<open>
  Lines 81 to 91 of \<^verbatim>\<open>disease_info_service.py\<close>: strip, drop a leading
  \<^verbatim>\<open>```json\<close> or \<^verbatim>\<open>```\<close>, drop a trailing \<^verbatim>\<open>```\<close>, strip again.
\<close>

definition remove_markdown :: "py_str \<Rightarrow> py_str" where
  "remove_markdown text =
     (let t0 = py_strip text;
          t1 = (if startswith t0 (str_of ''```json'') then drop 7 t0
                else if startswith t0 (str_of ''```'') then drop 3 t0
                else t0);
          t2 = (if endswith t1 (str_of ''```'') then take (length t1 - 3) t1 else t1)
      in py_strip t2)"

text \<open>
  The regular expression \<^verbatim>\<open>\{[^{}]*(?:\{[^{}]*\}[^{}]*)*\}\<close> of line 98. After the
  opening brace the match is deterministic: characters other than braces are consumed,
  an opening brace enters a group that must be closed before another one opens, and a
  closing brace outside a group ends the match. \<open>match_obj inner cs\<close> returns the rest of
  the match after the opening brace; \<open>inner\<close> tells whether a group is open.
\<close>

fun match_obj :: "bool \<Rightarrow> py_str \<Rightarrow> py_str option" where
  "match_obj inner [] = None"
| "match_obj False (c # cs) =
     (if c = of_char CHR ''}'' then Some [c]
      else if c = of_char CHR ''{'' then map_option ((#) c) (match_obj True cs)
      else map_option ((#) c) (match_obj False cs))"
| "match_obj True (c # cs) =
     (if c = of_char CHR ''}'' then map_option ((#) c) (match_obj False cs)
      else if c = of_char CHR ''{'' then None
      else map_option ((#) c) (match_obj True cs))"

text \<open>\<^verbatim>\<open>re.search\<close>: the match at the leftmost position where one exists.\<close>

fun re_search_json :: "py_str \<Rightarrow> py_str option" where
  "re_search_json [] = None"
| "re_search_json (c # cs) =
     (if c = of_char CHR ''{'' then
        (case match_obj False cs of
           Some m \<Rightarrow> Some (c # m)
         | None \<Rightarrow> re_search_json cs)
      else re_search_json cs)"

text \<open>Lines 81 to 100: the text that is handed to \<^verbatim>\<open>json.loads\<close>.\<close>

definition clean_response :: "py_str \<Rightarrow> py_str" where
  "clean_response text =
     (let response_text = remove_markdown text
      in case re_search_json response_text of
           Some m \<Rightarrow> m
         | None \<Rightarrow> response_text)"

section \<open>The disease information service\<close>

definition disease_full_names :: "(string \<times> string) list" where
  "disease_full_names =
     [(''BCC'', ''Basal Cell Carcinoma''),
      (''SCC'', ''Squamous Cell Carcinoma''),
      (''Melanoma'', ''Melanoma''),
      (''Acne'', ''Acne''),
      (''Eczema'', ''Eczema''),
      (''Psoriasis'', ''Psoriasis'')]"

definition full_name_of :: "string \<Rightarrow> string" where
  "full_name_of disease_name = dict_get disease_full_names disease_name disease_name"

text \<open>
  The external collaborators of \<^verbatim>\<open>get_disease_info\<close> are parameters. A
  \<open>generator\<close> is one call of \<^verbatim>\<open>self.model.generate_content(prompt)\<close> followed by
  \<^verbatim>\<open>response.text\<close>: the prompt is a fixed template around the full name, so the call
  is a function of the full name, and it either raises or yields the text. A \<open>json_loads\<close> is
  \<^verbatim>\<open>json.loads\<close>: it raises or yields a value.
\<close>

type_synonym generator = "string \<Rightarrow> py_exception + py_str"
type_synonym json_loads = "py_str \<Rightarrow> py_exception + py_value"

text \<open>The dictionary built when \<^verbatim>\<open>json.loads\<close> raises JSONDecodeError (lines 109 to 117).\<close>

definition parse_fallback :: "string \<Rightarrow> py_str \<Rightarrow> py_dict" where
  "parse_fallback full_name response_text =
     [(''name'', PyStr (str_of full_name)),
      (''description'',
         PyStr (if length response_text > 300 then take 300 response_text else response_text)),
      (''symptoms'', PyList []),
      (''cure'', PyStr (str_of ''Please consult a dermatologist for proper treatment.'')),
      (''precautions'', PyList []),
      (''severity'', PyStr (str_of ''moderate'')),
      (''when_to_see_doctor'',
         PyStr (str_of ''Consult a healthcare professional for proper diagnosis and treatment.''))]"

text \<open>The dictionary returned by the outer handler (lines 136 to 144).\<close>

definition fallback_info :: "string \<Rightarrow> py_dict" where
  "fallback_info disease_name =
     [(''name'', PyStr (str_of disease_name)),
      (''description'',
         PyStr (str_of ''Information temporarily unavailable. Please consult a dermatologist.'')),
      (''symptoms'', PyList []),
      (''cure'',
         PyStr (str_of ''Please consult a healthcare professional for proper diagnosis and treatment.'')),
      (''precautions'',
         PyList [PyStr (str_of ''Avoid excessive sun exposure''), PyStr (str_of ''Use sunscreen''),
                 PyStr (str_of ''Keep skin moisturized'')]),
      (''severity'', PyStr (str_of ''unknown'')),
      (''when_to_see_doctor'',
         PyStr (str_of ''Consult a dermatologist for proper diagnosis and treatment.''))]"

text \<open>
  Lines 123 to 131. \<^verbatim>\<open>disease_info.get\<close> exists on a dictionary only; on any other
  value that \<^verbatim>\<open>json.loads\<close> can yield the attribute access raises AttributeError.
\<close>

definition ensure_fields :: "string \<Rightarrow> py_value \<Rightarrow> py_exception + py_dict" where
  "ensure_fields full_name disease_info =
     (case disease_info of
        PyDict d \<Rightarrow>
          Inr [(''name'', dict_get d ''name'' (PyStr (str_of full_name))),
               (''description'', dict_get d ''description'' (PyStr [])),
               (''symptoms'', dict_get d ''symptoms'' (PyList [])),
               (''cure'', dict_get d ''cure'' (PyStr [])),
               (''precautions'', dict_get d ''precautions'' (PyList [])),
               (''severity'', dict_get d ''severity'' (PyStr (str_of ''moderate''))),
               (''when_to_see_doctor'',
                  dict_get d ''when_to_see_doctor'' (PyStr (str_of ''Consult a healthcare professional.'')))]
      | _ \<Rightarrow> Inl (AttributeError ''object has no attribute get''))"

text \<open>
  The body of the outer \<^verbatim>\<open>try\<close> (lines 33 to 131). The inner handler of line 118
  re-raises, so an exception of the generator, and any exception of \<^verbatim>\<open>json.loads\<close>
  other than JSONDecodeError, leaves the body.
\<close>

definition fetch_and_parse :: "generator \<Rightarrow> json_loads \<Rightarrow> string \<Rightarrow> py_exception + py_dict" where
  "fetch_and_parse generate_content loads disease_name =
     (let full_name = full_name_of disease_name in
      case generate_content full_name of
        Inl api_error \<Rightarrow> Inl api_error
      | Inr text \<Rightarrow>
          (let response_text = clean_response text in
           case loads response_text of
             Inr disease_info \<Rightarrow> ensure_fields full_name disease_info
           | Inl e \<Rightarrow>
               if is_JSONDecodeError e
               then ensure_fields full_name (PyDict (parse_fallback full_name response_text))
               else Inl e))"

text \<open>\<^verbatim>\<open>get_disease_info\<close>: the body under the outer handler of line 133.\<close>

definition get_disease_info :: "generator \<Rightarrow> json_loads \<Rightarrow> string \<Rightarrow> py_exception + py_dict" where
  "get_disease_info generate_content loads disease_name =
     (case fetch_and_parse generate_content loads disease_name of
        Inr info \<Rightarrow> Inr info
      | Inl e \<Rightarrow> Inr (fallback_info disease_name))"

definition record_keys :: "string list" where
  "record_keys = [''name'', ''description'', ''symptoms'', ''cure'', ''precautions'',
                  ''severity'', ''when_to_see_doctor'']"

section \<open>The model service\<close>

definition DISEASE_CATEGORIES :: "(nat \<times> string) list" where
  "DISEASE_CATEGORIES =
     [(0, ''Acne''), (1, ''BCC''), (2, ''Eczema''), (3, ''Melanoma''), (4, ''Psoriasis''),
      (5, ''SCC'')]"

text \<open>The dictionary that \<^verbatim>\<open>predict\<close> returns.\<close>

record prediction_result =
  disease :: string
  confidence :: real
  predicted_class_id :: nat
  all_predictions :: "(string \<times> real) list"

text \<open>\<^verbatim>\<open>np.argmax\<close>: the first index that holds the maximum.\<close>

fun np_argmax :: "real list \<Rightarrow> nat" where
  "np_argmax [] = 0"
| "np_argmax [x] = 0"
| "np_argmax (x # y # ys) =
     (let i = np_argmax (y # ys) in if x < (y # ys) ! i then Suc i else 0)"

text \<open>
  The network (preprocessing, the ViT and the softmax) is a parameter of the service:
  \<open>probabilities_of\<close> gives the probability vector of an image, or raises.
\<close>

record 'img model_service =
  is_loaded :: bool
  model_present :: bool
  probabilities_of :: "'img \<Rightarrow> py_exception + real list"

text \<open>
  \<^verbatim>\<open>predict\<close> (lines 77 to 120 of \<^verbatim>\<open>model_service.py\<close>). \<^verbatim>\<open>np.argmax\<close> raises
  ValueError on an empty vector, and the comprehension of line 106 raises IndexError
  at the first index beyond the vector when the vector has fewer entries than there are
  categories; that index, which is the size of the vector, is a single digit.
\<close>

definition digit :: "nat \<Rightarrow> string" where
  "digit n = [char_of (48 + n)]"

definition predict :: "'img model_service \<Rightarrow> 'img \<Rightarrow> py_exception + prediction_result" where
  "predict ms img =
     (if \<not> is_loaded ms \<or> \<not> model_present ms
      then Inl (RuntimeError ''Model not loaded. Call load_model() first.'')
      else case probabilities_of ms img of
        Inl e \<Rightarrow> Inl e
      | Inr probabilities \<Rightarrow>
          if probabilities = []
          then Inl (ValueError ''attempt to get argmax of an empty sequence'')
          else
            (let predicted_class_id = np_argmax probabilities;
                 confidence_score = probabilities ! predicted_class_id;
                 disease_name = dict_get DISEASE_CATEGORIES predicted_class_id ''Unknown''
             in if length probabilities < length DISEASE_CATEGORIES
                then Inl (IndexError
                       (''index '' @ digit (length probabilities)
                        @ '' is out of bounds for axis 0 with size ''
                        @ digit (length probabilities)))
                else Inr \<lparr>disease = disease_name,
                          confidence = confidence_score,
                          predicted_class_id = predicted_class_id,
                          all_predictions =
                            map (\<lambda>(i, name). (name, probabilities ! i)) DISEASE_CATEGORIES\<rparr>))"

section \<open>The scan endpoints\<close>

datatype http_exception = HTTPException nat string

record alternate =
  alt_name :: string
  alt_probability :: real
  alt_disease_info :: py_dict

record response =
  success :: bool
  r_disease :: string
  r_confidence :: real
  is_low_confidence :: bool
  confidence_warning :: "string option"
  disease_info :: py_dict
  r_all_predictions :: "(string \<times> real) list"
  alternate_diseases :: "alternate list"
  model_version :: string

text \<open>
  The knowledge source answers each call on its own: \<open>ks n\<close> is the behaviour of the
  call made after \<open>n\<close> earlier ones. The calls of a request are logged as the list of
  the disease names asked for, oldest first.
\<close>

type_synonym knowledge_source = "nat \<Rightarrow> generator"

definition fetch ::
  "knowledge_source \<Rightarrow> json_loads \<Rightarrow> string \<Rightarrow> string list
     \<Rightarrow> (py_exception + py_dict) \<times> string list" where
  "fetch ks loads disease_name calls =
     (get_disease_info (ks (length calls)) loads disease_name, calls @ [disease_name])"

text \<open>
  \<^verbatim>\<open>sorted(all_predictions.items(), key=lambda x: x[1], reverse=True)\<close>: a stable sort
  by descending probability.
\<close>

definition sorted_predictions_of :: "(string \<times> real) list \<Rightarrow> (string \<times> real) list" where
  "sorted_predictions_of predictions = sort_key (\<lambda>x. - snd x) predictions"

definition top_prediction_of :: "(string \<times> real) list \<Rightarrow> real" where
  "top_prediction_of sorted_predictions =
     (if sorted_predictions \<noteq> [] then snd (sorted_predictions ! 0) else 0)"

definition second_prediction_of :: "(string \<times> real) list \<Rightarrow> real" where
  "second_prediction_of sorted_predictions =
     (if length sorted_predictions > 1 then snd (sorted_predictions ! 1) else 0)"

definition CONFIDENCE_THRESHOLD :: real where
  "CONFIDENCE_THRESHOLD = 0.70"

text \<open>
  Lines 74 to 87 of \<^verbatim>\<open>scan.py\<close> (\<^verbatim>\<open>/analyze\<close>). The assignment of line 75 is
  overwritten by the one of line 87.
\<close>

definition low_confidence_analyze :: "prediction_result \<Rightarrow> bool" where
  "low_confidence_analyze prediction_result =
     (let is_low_confidence0 = (confidence prediction_result < CONFIDENCE_THRESHOLD);
          sorted_predictions = sorted_predictions_of (all_predictions prediction_result);
          top_prediction = top_prediction_of sorted_predictions;
          second_prediction = second_prediction_of sorted_predictions
      in confidence prediction_result < CONFIDENCE_THRESHOLD
           \<or> top_prediction - second_prediction < 0.20)"

text \<open>Lines 206 to 216 (\<^verbatim>\<open>/analyze-base64\<close>).\<close>

definition low_confidence_base64 :: "prediction_result \<Rightarrow> bool" where
  "low_confidence_base64 prediction_result =
     (let sorted_predictions = sorted_predictions_of (all_predictions prediction_result);
          top_prediction = top_prediction_of sorted_predictions;
          second_prediction = second_prediction_of sorted_predictions
      in confidence prediction_result < CONFIDENCE_THRESHOLD
           \<or> top_prediction - second_prediction < 0.20)"

text \<open>The dictionary of the handler of lines 99 to 109.\<close>

definition candidate_error_info :: "string \<Rightarrow> py_dict" where
  "candidate_error_info disease_candidate =
     [(''name'', PyStr (str_of disease_candidate)),
      (''description'',
         PyStr (str_of ''Information temporarily unavailable. Please consult a dermatologist.'')),
      (''symptoms'', PyList []),
      (''cure'', PyStr (str_of ''Consult a healthcare professional for accurate treatment.'')),
      (''precautions'', PyList []),
      (''severity'', PyStr (str_of ''unknown'')),
      (''when_to_see_doctor'', PyStr (str_of ''Consult a dermatologist for proper diagnosis.''))]"

text \<open>
  The loop of lines 93 to 109 over \<open>top_candidates\<close>. The state is the call log and the
  dictionary \<open>candidate_infos\<close>.
\<close>

fun fetch_candidate_infos ::
  "knowledge_source \<Rightarrow> json_loads \<Rightarrow> string \<Rightarrow> py_dict \<Rightarrow> (string \<times> real) list
     \<Rightarrow> string list \<times> (string \<rightharpoonup> py_dict) \<Rightarrow> string list \<times> (string \<rightharpoonup> py_dict)" where
  "fetch_candidate_infos ks loads disease_name info [] st = st"
| "fetch_candidate_infos ks loads disease_name info ((disease_candidate, p) # rest)
       (calls, candidate_infos) =
     (if disease_candidate = disease_name
      then fetch_candidate_infos ks loads disease_name info rest
             (calls, candidate_infos(disease_candidate \<mapsto> info))
      else
        (case fetch ks loads disease_candidate calls of
           (Inr fetched, calls') \<Rightarrow>
             fetch_candidate_infos ks loads disease_name info rest
               (calls', candidate_infos(disease_candidate \<mapsto> fetched))
         | (Inl info_error, calls') \<Rightarrow>
             fetch_candidate_infos ks loads disease_name info rest
               (calls', candidate_infos(disease_candidate \<mapsto>
                  candidate_error_info disease_candidate))))"

text \<open>The loop of lines 111 to 118.\<close>

definition build_alternates ::
  "(string \<rightharpoonup> py_dict) \<Rightarrow> (string \<times> real) list \<Rightarrow> alternate list" where
  "build_alternates candidate_infos top_candidates =
     map (\<lambda>(disease_candidate, p).
            \<lparr>alt_name = disease_candidate,
             alt_probability = p,
             alt_disease_info =
               (case candidate_infos disease_candidate of Some i \<Rightarrow> i | None \<Rightarrow> [])\<rparr>)
         top_candidates"

definition generic_disease_info :: py_dict where
  "generic_disease_info =
     [(''name'', PyStr (str_of ''Multiple Possibilities'')),
      (''description'',
         PyStr (str_of ''The analysis indicates multiple possible conditions. The image quality or clarity may be affecting the accuracy of the diagnosis.'')),
      (''symptoms'', PyList []),
      (''cure'',
         PyStr (str_of ''Please consult a dermatologist for proper diagnosis. Upload a clearer, well-lit image for better analysis results.'')),
      (''precautions'',
         PyList [PyStr (str_of ''Monitor the affected area for any changes''),
                 PyStr (str_of ''Avoid scratching or irritating the area''),
                 PyStr (str_of ''Keep the area clean and dry''),
                 PyStr (str_of ''Consult a healthcare professional for proper diagnosis'')]),
      (''severity'', PyStr (str_of ''unknown'')),
      (''when_to_see_doctor'',
         PyStr (str_of ''It is recommended to consult a dermatologist, especially if the condition persists, worsens, or if you have concerns about skin cancer (BCC, SCC, or Melanoma).''))]"

definition warning_text :: string where
  "warning_text =
     ''The image quality or clarity may be affecting the analysis. '' @
     ''Based on the model predictions, this could be one of several conditions. '' @
     ''Please upload a clearer, well-lit image of the affected area for more accurate results.''"

text \<open>
  Lines 89 to 141, which lines 218 to 270 repeat word for word: from the fetched record
  of the primary and the decision, the alternates, the record to return and the warning,
  with the call log.
\<close>

definition enrich ::
  "knowledge_source \<Rightarrow> json_loads \<Rightarrow> string \<Rightarrow> py_dict \<Rightarrow> bool \<Rightarrow> (string \<times> real) list
     \<Rightarrow> string list \<Rightarrow> (alternate list \<times> py_dict \<times> string option) \<times> string list" where
  "enrich ks loads disease_name info low sorted_predictions calls =
     (if low \<and> sorted_predictions \<noteq> [] then
        (let top_candidates = take 3 sorted_predictions;
             (calls', candidate_infos) =
               fetch_candidate_infos ks loads disease_name info top_candidates (calls, Map.empty)
         in ((build_alternates candidate_infos top_candidates, generic_disease_info,
              Some warning_text), calls'))
      else (([], info, None), calls))"

text \<open>
  Lines 66 to 156: the response of \<^verbatim>\<open>/analyze\<close> for a prediction, with the log of the
  calls made to the knowledge source. The handler of line 99 is kept although
  \<^verbatim>\<open>get_disease_info\<close> does not raise; an exception of the first fetch would leave the
  body.
\<close>

definition analyze_core ::
  "knowledge_source \<Rightarrow> json_loads \<Rightarrow> prediction_result \<Rightarrow> py_exception + response \<times> string list"
  where
  "analyze_core ks loads prediction_result =
     (let disease_name = disease prediction_result;
          conf = confidence prediction_result
      in case fetch ks loads disease_name [] of
        (Inl e, calls) \<Rightarrow> Inl e
      | (Inr info, calls) \<Rightarrow>
          (let low = low_confidence_analyze prediction_result;
               sorted_predictions = sorted_predictions_of (all_predictions prediction_result);
               ((alternates, info', warning), calls') =
                 enrich ks loads disease_name info low sorted_predictions calls
           in Inr (\<lparr>success = True,
                     r_disease = disease_name,
                     r_confidence = conf,
                     is_low_confidence = low,
                     confidence_warning = warning,
                     disease_info = info',
                     r_all_predictions = all_predictions prediction_result,
                     alternate_diseases = alternates,
                     model_version = ''1.0.0''\<rparr>, calls')))"

text \<open>Lines 200 to 282: the same for \<^verbatim>\<open>/analyze-base64\<close>.\<close>

definition analyze_base64_core ::
  "knowledge_source \<Rightarrow> json_loads \<Rightarrow> prediction_result \<Rightarrow> py_exception + response \<times> string list"
  where
  "analyze_base64_core ks loads prediction_result =
     (let disease_name = disease prediction_result
      in case fetch ks loads disease_name [] of
        (Inl e, calls) \<Rightarrow> Inl e
      | (Inr info, calls) \<Rightarrow>
          (let conf = confidence prediction_result;
               low = low_confidence_base64 prediction_result;
               sorted_predictions = sorted_predictions_of (all_predictions prediction_result);
               ((alternates, info', warning), calls') =
                 enrich ks loads disease_name info low sorted_predictions calls
           in Inr (\<lparr>success = True,
                     r_disease = disease_name,
                     r_confidence = conf,
                     is_low_confidence = low,
                     confidence_warning = warning,
                     disease_info = info',
                     r_all_predictions = all_predictions prediction_result,
                     alternate_diseases = alternates,
                     model_version = ''1.0.0''\<rparr>, calls')))"

text \<open>
  The handlers. An upload carries its content type and the outcome of reading and
  decoding the image (lines 55 to 60); every exception other than HTTPException becomes
  status 500.
\<close>

record 'img upload_file =
  content_type :: "string option"
  decoded_image :: "py_exception + 'img"

definition internal_error :: "py_exception \<Rightarrow> http_exception" where
  "internal_error e = HTTPException 500 (''Error analyzing image: '' @ str_exc e)"

definition analyze_scan ::
  "'img model_service \<Rightarrow> knowledge_source \<Rightarrow> json_loads \<Rightarrow> 'img upload_file
     \<Rightarrow> http_exception + response \<times> string list" where
  "analyze_scan ms ks loads file =
     (case content_type file of
        None \<Rightarrow> Inl (HTTPException 400 ''File must be an image'')
      | Some ct \<Rightarrow>
          if ct = [] \<or> \<not> startswith ct ''image/''
          then Inl (HTTPException 400 ''File must be an image'')
          else
            (case decoded_image file of
               Inl e \<Rightarrow> Inl (internal_error e)
             | Inr img \<Rightarrow>
                 (case predict ms img of
                    Inl e \<Rightarrow> Inl (internal_error e)
                  | Inr prediction_result \<Rightarrow>
                      (case analyze_core ks loads prediction_result of
                         Inl e \<Rightarrow> Inl (internal_error e)
                       | Inr r \<Rightarrow> Inr r))))"

text \<open>
  \<^verbatim>\<open>image_base64.split(",")[1]\<close> when the string has a comma: the part between the
  first comma and the second.
\<close>

definition after_comma :: "string \<Rightarrow> string" where
  "after_comma s =
     (if CHR '','' \<in> set s
      then takeWhile (\<lambda>c. c \<noteq> CHR '','') (tl (dropWhile (\<lambda>c. c \<noteq> CHR '','') s))
      else s)"

text \<open>
  \<open>decode\<close> stands for \<^verbatim>\<open>base64.b64decode\<close>, \<^verbatim>\<open>Image.open\<close> and the conversion to RGB
  (lines 191 to 196).
\<close>

definition analyze_scan_base64 ::
  "'img model_service \<Rightarrow> knowledge_source \<Rightarrow> json_loads \<Rightarrow> (string \<Rightarrow> py_exception + 'img)
     \<Rightarrow> string \<Rightarrow> http_exception + response \<times> string list" where
  "analyze_scan_base64 ms ks loads decode image_base64 =
     (if image_base64 = [] then Inl (HTTPException 400 ''image_base64 is required'')
      else
        (case decode (after_comma image_base64) of
           Inl e \<Rightarrow> Inl (internal_error e)
         | Inr img \<Rightarrow>
             (case predict ms img of
                Inl e \<Rightarrow> Inl (internal_error e)
              | Inr prediction_result \<Rightarrow>
                  (case analyze_base64_core ks loads prediction_result of
                     Inl e \<Rightarrow> Inl (internal_error e)
                   | Inr r \<Rightarrow> Inr r))))"

section \<open>The canonical rule of the specification\<close>

text \<open>
  The Ambiguity Classifier as section 4.1 of the specification words it, for comparison
  with the two endpoints: sort by descending probability, stable on ties; \<open>top\<close> is the
  first entry and \<open>second\<close> the next one or 0; an empty distribution is an error.
\<close>

datatype spec_error = InvalidInputError

definition spec_classify ::
  "(string \<times> real) list \<Rightarrow> real \<Rightarrow> real \<Rightarrow> nat \<Rightarrow> spec_error + string \<times> bool \<times> string list" where
  "spec_classify distribution confidence_threshold margin_threshold max_candidates =
     (case sort_key (\<lambda>e. - snd e) distribution of
        [] \<Rightarrow> Inl InvalidInputError
      | top_entry # others \<Rightarrow>
          (let second = (case others of [] \<Rightarrow> 0 | e # _ \<Rightarrow> snd e);
               is_ambiguous =
                 (snd top_entry < confidence_threshold \<or> snd top_entry - second < margin_threshold)
           in Inr (fst top_entry, is_ambiguous,
                   if is_ambiguous then map fst (take max_candidates (top_entry # others)) else [])))"

section \<open>Scenarios\<close>

text \<open>
  Concrete inputs on which the definitions are evaluated: the ambiguous distribution of
  the specification (Melanoma 0.55, SCC 0.40, BCC 0.05) in the order of the category
  table, a knowledge source whose every call times out, a \<^verbatim>\<open>json.loads\<close> that rejects
  every text, a network that returns an empty probability vector, and three generated
  texts with what \<^verbatim>\<open>json.loads\<close> makes of them: an object whose name is null (code
  point 34 is the double quote), a list, and the empty text.
\<close>

definition scenario_probabilities :: "real list" where
  "scenario_probabilities = [0, 0.05, 0, 0.55, 0, 0.40]"

definition scenario_model :: "unit model_service" where
  "scenario_model =
     \<lparr>is_loaded = True, model_present = True,
      probabilities_of = (\<lambda>img. Inr scenario_probabilities)\<rparr>"

definition scenario_upload :: "unit upload_file" where
  "scenario_upload = \<lparr>content_type = Some ''image/png'', decoded_image = Inr ()\<rparr>"

definition offline_source :: knowledge_source where
  "offline_source n prompt = Inl (OtherException ''deadline exceeded'')"

definition failing_loads :: json_loads where
  "failing_loads t = Inl (JSONDecodeError ''Expecting value'')"

definition scenario_prediction :: prediction_result where
  "scenario_prediction =
     \<lparr>disease = ''Melanoma'', confidence = 0.55, predicted_class_id = 3,
      all_predictions = [(''Acne'', 0), (''BCC'', 0.05), (''Eczema'', 0), (''Melanoma'', 0.55),
                         (''Psoriasis'', 0), (''SCC'', 0.40)]\<rparr>"

definition scenario_response :: response where
  "scenario_response =
     \<lparr>success = True, r_disease = ''Melanoma'', r_confidence = 0.55,
      is_low_confidence = True, confidence_warning = Some warning_text,
      disease_info = generic_disease_info,
      r_all_predictions = [(''Acne'', 0), (''BCC'', 0.05), (''Eczema'', 0), (''Melanoma'', 0.55),
                           (''Psoriasis'', 0), (''SCC'', 0.40)],
      alternate_diseases =
        [\<lparr>alt_name = ''Melanoma'', alt_probability = 0.55,
          alt_disease_info = fallback_info ''Melanoma''\<rparr>,
         \<lparr>alt_name = ''SCC'', alt_probability = 0.40, alt_disease_info = fallback_info ''SCC''\<rparr>,
         \<lparr>alt_name = ''BCC'', alt_probability = 0.05, alt_disease_info = fallback_info ''BCC''\<rparr>],
      model_version = ''1.0.0''\<rparr>"

definition empty_model :: "unit model_service" where
  "empty_model =
     \<lparr>is_loaded = True, model_present = True, probabilities_of = (\<lambda>img. Inr [])\<rparr>"

definition null_name_text :: py_str where
  "null_name_text = str_of ''{'' @ [34] @ str_of ''name'' @ [34] @ str_of '': null}''"

definition list_text :: py_str where
  "list_text = str_of ''[1, 2]''"

definition example_loads :: json_loads where
  "example_loads t =
     (if t = null_name_text then Inr (PyDict [(''name'', PyNone)])
      else if t = list_text then Inr (PyList [PyInt 1, PyInt 2])
      else Inl (JSONDecodeError ''Expecting value''))"

section \<open>Properties of the disease information service\<close>

lemma str_of_eq [simp]: "str_of a = str_of b \<longleftrightarrow> a = b"
  unfolding str_of_def by (simp add: inj_on_def)

lemma str_of_simps: "str_of [] = []" "str_of (c # cs) = of_char c # str_of cs"
  by (simp_all add: str_of_def)

lemma ensure_fields_keys: "ensure_fields full_name v = Inr d \<Longrightarrow> map fst d = record_keys"
  by (auto simp: ensure_fields_def record_keys_def split: py_value.splits)

lemma ensure_fields_parse_fallback:
  "ensure_fields full_name (PyDict (parse_fallback full_name t)) = Inr (parse_fallback full_name t)"
  by (simp add: ensure_fields_def parse_fallback_def dict_get_def)

lemma ensure_fields_not_dict:
  "\<forall>d. v \<noteq> PyDict d \<Longrightarrow> \<exists>e. ensure_fields full_name v = Inl e"
  by (cases v) (simp_all add: ensure_fields_def)

lemma dict_get_null: "dict_get d k dflt = PyNone \<Longrightarrow> dflt \<noteq> PyNone \<Longrightarrow> map_of d k = Some PyNone"
  by (simp add: dict_get_def split: option.splits)

lemma ensure_fields_null:
  assumes "ensure_fields full_name (PyDict d) = Inr info" and "map_of info k = Some PyNone"
  shows "map_of d k = Some PyNone"
proof -
  have i: "info = [(''name'', dict_get d ''name'' (PyStr (str_of full_name))),
               (''description'', dict_get d ''description'' (PyStr [])),
               (''symptoms'', dict_get d ''symptoms'' (PyList [])),
               (''cure'', dict_get d ''cure'' (PyStr [])),
               (''precautions'', dict_get d ''precautions'' (PyList [])),
               (''severity'', dict_get d ''severity'' (PyStr (str_of ''moderate''))),
               (''when_to_see_doctor'',
                  dict_get d ''when_to_see_doctor'' (PyStr (str_of ''Consult a healthcare professional.'')))]"
    using assms(1) by (simp add: ensure_fields_def)
  from assms(2) show ?thesis
    unfolding i
    by (auto split: if_splits dest: dict_get_null)
qed

lemma fallback_info_keys: "map fst (fallback_info n) = record_keys"
  by (simp add: fallback_info_def record_keys_def)

lemma parse_fallback_keys: "map fst (parse_fallback fn t) = record_keys"
  by (simp add: parse_fallback_def record_keys_def)

lemma fallback_info_no_null: "map_of (fallback_info n) k \<noteq> Some PyNone"
  by (simp add: fallback_info_def)

lemma parse_fallback_no_null: "map_of (parse_fallback fn t) k \<noteq> Some PyNone"
  by (simp add: parse_fallback_def)

lemma fetch_and_parse_keys:
  "fetch_and_parse g l n = Inr d \<Longrightarrow> map fst d = record_keys"
  unfolding fetch_and_parse_def Let_def
  by (auto dest: ensure_fields_keys split: sum.splits if_splits)

lemma get_disease_info_keys:
  "get_disease_info g l n = Inr d \<Longrightarrow> map fst d = record_keys"
  unfolding get_disease_info_def
  by (auto simp: fallback_info_keys dest: fetch_and_parse_keys split: sum.splits)

lemma get_disease_info_returns: "\<exists>d. get_disease_info g l n = Inr d"
  by (simp add: get_disease_info_def split: sum.splits)

lemma generator_failure:
  "g (full_name_of n) = Inl e \<Longrightarrow> get_disease_info g l n = Inr (fallback_info n)"
  by (simp add: get_disease_info_def fetch_and_parse_def)

lemma decode_failure:
  "g (full_name_of n) = Inr text \<Longrightarrow> l (clean_response text) = Inl (JSONDecodeError m) \<Longrightarrow>
   get_disease_info g l n = Inr (parse_fallback (full_name_of n) (clean_response text))"
  by (simp add: get_disease_info_def fetch_and_parse_def ensure_fields_parse_fallback)

lemma other_loads_failure:
  "g (full_name_of n) = Inr text \<Longrightarrow> l (clean_response text) = Inl e \<Longrightarrow>
   \<not> is_JSONDecodeError e \<Longrightarrow> get_disease_info g l n = Inr (fallback_info n)"
  by (simp add: get_disease_info_def fetch_and_parse_def)

lemma not_an_object:
  assumes "g (full_name_of n) = Inr text" and "l (clean_response text) = Inr v"
    and "\<forall>d. v \<noteq> PyDict d"
  shows "get_disease_info g l n = Inr (fallback_info n)"
proof -
  obtain e where "ensure_fields (full_name_of n) v = Inl e"
    using ensure_fields_not_dict [OF assms(3)] by blast
  then show ?thesis
    using assms(1,2) by (simp add: get_disease_info_def fetch_and_parse_def)
qed

lemma decoded_object:
  "g (full_name_of n) = Inr text \<Longrightarrow> l (clean_response text) = Inr (PyDict d) \<Longrightarrow>
   \<exists>info. ensure_fields (full_name_of n) (PyDict d) = Inr info
        \<and> get_disease_info g l n = Inr info"
  by (simp add: get_disease_info_def fetch_and_parse_def ensure_fields_def)

lemma null_only_from_payload:
  assumes "get_disease_info g l n = Inr info" and "map_of info k = Some PyNone"
  shows "\<exists>text d. g (full_name_of n) = Inr text \<and> l (clean_response text) = Inr (PyDict d)
           \<and> map_of d k = Some PyNone"
proof (cases "g (full_name_of n)")
  case (Inl e)
  then have "info = fallback_info n"
    using generator_failure [of g n e l] Inl assms(1) by simp
  then show ?thesis using assms(2) fallback_info_no_null by blast
next
  case (Inr raw)
  show ?thesis
  proof (cases "l (clean_response raw)")
    case (Inl e)
    show ?thesis
    proof (cases "is_JSONDecodeError e")
      case True
      then obtain m where "e = JSONDecodeError m" by (cases e) auto
      then have "info = parse_fallback (full_name_of n) (clean_response raw)"
        using decode_failure [of g n raw l m] Inr Inl assms(1) by simp
      then show ?thesis using assms(2) parse_fallback_no_null by blast
    next
      case False
      then have "info = fallback_info n"
        using other_loads_failure [of g n raw l e] Inr Inl assms(1) by simp
      then show ?thesis using assms(2) fallback_info_no_null by blast
    qed
  next
    case v: (Inr v)
    show ?thesis
    proof (cases "\<exists>d. v = PyDict d")
      case True
      then obtain d where d: "v = PyDict d" by blast
      obtain info' where i: "ensure_fields (full_name_of n) (PyDict d) = Inr info'"
          "get_disease_info g l n = Inr info'"
        using decoded_object [of g n raw l d] Inr v d by auto
      then have "info' = info" using assms(1) by simp
      then have "map_of d k = Some PyNone"
        using ensure_fields_null [OF i(1)] assms(2) by simp
      then show ?thesis using Inr v d by blast
    next
      case False
      then have "info = fallback_info n"
        using not_an_object [of g n raw l v] Inr v assms(1) by simp
      then show ?thesis using assms(2) fallback_info_no_null by blast
    qed
  qed
qed

lemma keys_present: "map fst d = record_keys \<Longrightarrow> k \<in> set record_keys \<Longrightarrow> map_of d k \<noteq> None"
  by (metis map_of_eq_None_iff list.set_map)

lemma keys_absent: "map fst d = record_keys \<Longrightarrow> k \<notin> set record_keys \<Longrightarrow> map_of d k = None"
  by (metis map_of_eq_None_iff list.set_map)

lemma clean_null_name_text: "clean_response null_name_text = null_name_text"
  by (simp add: null_name_text_def clean_response_def remove_markdown_def py_strip_def
      is_space_def startswith_def endswith_def str_of_simps)

lemma clean_list_text: "clean_response list_text = list_text"
  by (simp add: list_text_def clean_response_def remove_markdown_def py_strip_def
      is_space_def startswith_def endswith_def str_of_simps)

lemma clean_empty_text: "clean_response [] = []"
  by (simp add: clean_response_def remove_markdown_def py_strip_def
      startswith_def endswith_def str_of_simps)

lemma clean_sorry_text: "clean_response (str_of ''Sorry {x}'') = str_of ''{x}''"
  by (simp add: clean_response_def remove_markdown_def py_strip_def
      is_space_def startswith_def endswith_def str_of_simps)

lemma clean_nbsp_text: "clean_response ([0xA0] @ str_of ''hello'' @ [0x85, 0x2003]) = str_of ''hello''"
  by (simp add: clean_response_def remove_markdown_def py_strip_def
      is_space_def startswith_def endswith_def str_of_simps)

lemma clean_fenced_text:
  "clean_response (str_of '' ```json{x}``` '') = str_of ''{x}''"
  by (simp add: clean_response_def remove_markdown_def py_strip_def
      is_space_def startswith_def endswith_def str_of_simps)

lemma example_loads_values:
  "example_loads null_name_text = Inr (PyDict [(''name'', PyNone)])"
  "example_loads list_text = Inr (PyList [PyInt 1, PyInt 2])"
  "example_loads [] = Inl (JSONDecodeError ''Expecting value'')"
  "example_loads (str_of ''{x}'') = Inl (JSONDecodeError ''Expecting value'')"
  "example_loads (str_of ''hello'') = Inl (JSONDecodeError ''Expecting value'')"
  by (simp_all add: example_loads_def null_name_text_def list_text_def str_of_simps)

lemma full_name_examples:
  "full_name_of ''Acne'' = ''Acne''" "full_name_of ''BCC'' = ''Basal Cell Carcinoma''"
  "full_name_of ''SCC'' = ''Squamous Cell Carcinoma''"
  by (simp_all add: full_name_of_def disease_full_names_def dict_get_def)

text \<open>
  C2, as the specification states it, fails in two places. A payload that gives null
  for a field passes the null on: for the text whose object has a null name the record
  returned has the name \<^verbatim>\<open>None\<close>. And a call that succeeds with an empty text is not
  answered with the fixed fallback: \<^verbatim>\<open>json.loads\<close> rejects the empty text, and the
  record is the one built on the decoding error.
\<close>

theorem get_disease_info_null_field_and_empty_text:
  "get_disease_info (\<lambda>prompt. Inr null_name_text) example_loads ''Acne''
     = Inr [(''name'', PyNone), (''description'', PyStr []), (''symptoms'', PyList []),
            (''cure'', PyStr []), (''precautions'', PyList []),
            (''severity'', PyStr (str_of ''moderate'')),
            (''when_to_see_doctor'', PyStr (str_of ''Consult a healthcare professional.''))]
   \<and> get_disease_info (\<lambda>prompt. Inr []) example_loads ''Acne''
       = Inr (parse_fallback ''Acne'' [])
   \<and> parse_fallback ''Acne'' [] \<noteq> fallback_info ''Acne''"
proof -
  have a: "get_disease_info (\<lambda>prompt. Inr null_name_text) example_loads ''Acne''
     = Inr [(''name'', PyNone), (''description'', PyStr []), (''symptoms'', PyList []),
            (''cure'', PyStr []), (''precautions'', PyList []),
            (''severity'', PyStr (str_of ''moderate'')),
            (''when_to_see_doctor'', PyStr (str_of ''Consult a healthcare professional.''))]"
    by (simp add: get_disease_info_def fetch_and_parse_def clean_null_name_text
        example_loads_values ensure_fields_def dict_get_def)
  have b: "get_disease_info (\<lambda>prompt. Inr []) example_loads ''Acne''
       = Inr (parse_fallback ''Acne'' [])"
    using decode_failure [of "\<lambda>prompt. Inr []" "''Acne''" "[]" example_loads "''Expecting value''"]
    by (simp add: clean_empty_text example_loads_values full_name_examples)
  have c: "parse_fallback ''Acne'' [] \<noteq> fallback_info ''Acne''"
    by (simp add: parse_fallback_def fallback_info_def)
  show ?thesis using a b c by blast
qed

text \<open>
  C2, amended. \<^verbatim>\<open>get_disease_info\<close> never raises: for every behaviour of the knowledge
  source and of \<^verbatim>\<open>json.loads\<close> and every disease name it returns a dictionary in which
  each of the seven fields is present. When the call to the knowledge source raises,
  the dictionary is the fixed fallback of the outer handler; when the call returns a
  text that \<^verbatim>\<open>json.loads\<close> rejects with JSONDecodeError, the empty text included, it
  is the fallback built on the cleaned text. A field is \<^verbatim>\<open>None\<close> only when the text
  decodes to an object that gives null for that field.
\<close>

theorem get_disease_info_total:
  "\<exists>info. get_disease_info generate_content loads disease_name = Inr info
     \<and> (\<forall>k \<in> set record_keys. map_of info k \<noteq> None)
     \<and> ((\<exists>e. generate_content (full_name_of disease_name) = Inl e)
          \<longrightarrow> info = fallback_info disease_name)
     \<and> (\<forall>text m. generate_content (full_name_of disease_name) = Inr text
            \<and> loads (clean_response text) = Inl (JSONDecodeError m)
          \<longrightarrow> info = parse_fallback (full_name_of disease_name) (clean_response text))
     \<and> (\<forall>k. map_of info k = Some PyNone
          \<longrightarrow> (\<exists>text d. generate_content (full_name_of disease_name) = Inr text
                  \<and> loads (clean_response text) = Inr (PyDict d)
                  \<and> map_of d k = Some PyNone))"
proof -
  obtain info where r: "get_disease_info generate_content loads disease_name = Inr info"
    using get_disease_info_returns by blast
  have k: "map fst info = record_keys"
    using r by (rule get_disease_info_keys)
  have p: "\<forall>k \<in> set record_keys. map_of info k \<noteq> None"
    using k keys_present by blast
  have f: "(\<exists>e. generate_content (full_name_of disease_name) = Inl e)
          \<longrightarrow> info = fallback_info disease_name"
    using r generator_failure by fastforce
  have d: "\<forall>text m. generate_content (full_name_of disease_name) = Inr text
            \<and> loads (clean_response text) = Inl (JSONDecodeError m)
          \<longrightarrow> info = parse_fallback (full_name_of disease_name) (clean_response text)"
    using r decode_failure by fastforce
  have n: "\<forall>k. map_of info k = Some PyNone
          \<longrightarrow> (\<exists>text d. generate_content (full_name_of disease_name) = Inr text
                  \<and> loads (clean_response text) = Inr (PyDict d)
                  \<and> map_of d k = Some PyNone)"
    using null_only_from_payload [OF r] by blast
  show ?thesis using r p f d n by blast
qed

theorem get_disease_info_total_witness:
  "\<exists>info. get_disease_info (\<lambda>prompt. Inl (OtherException ''deadline exceeded''))
            example_loads ''BCC'' = Inr info
     \<and> info = fallback_info ''BCC''
     \<and> map_of info ''severity'' = Some (PyStr (str_of ''unknown''))"
  using get_disease_info_total
    [of "\<lambda>prompt. Inl (OtherException ''deadline exceeded'')" example_loads "''BCC''"]
  by (auto simp: fallback_info_def)

text \<open>
  C10. In every outcome the dictionary returned by \<^verbatim>\<open>get_disease_info\<close> has exactly the
  seven keys name, description, symptoms, cure, precautions, severity and
  when_to_see_doctor, each once; a key of the generator's payload outside these seven
  is not in the result.
\<close>

theorem get_disease_info_exactly_seven_keys:
  "get_disease_info generate_content loads disease_name = Inr info \<Longrightarrow>
     map fst info = record_keys \<and> distinct (map fst info)
     \<and> (\<forall>k. k \<notin> set record_keys \<longrightarrow> map_of info k = None)"
proof -
  assume r: "get_disease_info generate_content loads disease_name = Inr info"
  have k: "map fst info = record_keys"
    using r by (rule get_disease_info_keys)
  have d: "distinct record_keys"
    by (simp add: record_keys_def)
  show ?thesis using k d keys_absent by auto
qed

theorem get_disease_info_exactly_seven_keys_witness:
  "get_disease_info (\<lambda>prompt. Inr (str_of ''{}''))
      (\<lambda>t. Inr (PyDict [(''name'', PyStr (str_of ''Acne'')), (''confidence'', PyFloat 1),
                          (''severity'', PyStr (str_of ''mild''))])) ''Acne''
     = Inr [(''name'', PyStr (str_of ''Acne'')), (''description'', PyStr []),
            (''symptoms'', PyList []), (''cure'', PyStr []), (''precautions'', PyList []),
            (''severity'', PyStr (str_of ''mild'')),
            (''when_to_see_doctor'', PyStr (str_of ''Consult a healthcare professional.''))]
   \<and> map_of [(''name'', PyStr (str_of ''Acne'')), (''description'', PyStr []),
            (''symptoms'', PyList []), (''cure'', PyStr []), (''precautions'', PyList []),
            (''severity'', PyStr (str_of ''mild'')),
            (''when_to_see_doctor'', PyStr (str_of ''Consult a healthcare professional.''))]
        ''confidence'' = None"
proof -
  have r: "get_disease_info (\<lambda>prompt. Inr (str_of ''{}''))
      (\<lambda>t. Inr (PyDict [(''name'', PyStr (str_of ''Acne'')), (''confidence'', PyFloat 1),
                          (''severity'', PyStr (str_of ''mild''))])) ''Acne''
     = Inr [(''name'', PyStr (str_of ''Acne'')), (''description'', PyStr []),
            (''symptoms'', PyList []), (''cure'', PyStr []), (''precautions'', PyList []),
            (''severity'', PyStr (str_of ''mild'')),
            (''when_to_see_doctor'', PyStr (str_of ''Consult a healthcare professional.''))]"
    by (simp add: get_disease_info_def fetch_and_parse_def ensure_fields_def dict_get_def
        full_name_of_def disease_full_names_def)
  have n: "''confidence'' \<notin> set record_keys"
    by (simp add: record_keys_def)
  show ?thesis using get_disease_info_exactly_seven_keys [OF r] n r by blast
qed

text \<open>
  C8, as the specification states it, fails: the fixed fallback does not tell the
  caller that the transport failed. The text \<^verbatim>\<open>[1, 2]\<close> arrives and decodes, the list
  has no \<^verbatim>\<open>get\<close>, the AttributeError reaches the outer handler, and the record is the
  one that a call that timed out gives.
\<close>

theorem fixed_fallback_without_transport_failure:
  "get_disease_info (\<lambda>prompt. Inr list_text) example_loads ''Acne''
     = Inr (fallback_info ''Acne'')
   \<and> get_disease_info (\<lambda>prompt. Inl (OtherException ''deadline exceeded'')) example_loads ''Acne''
     = Inr (fallback_info ''Acne'')"
proof -
  have a: "get_disease_info (\<lambda>prompt. Inr list_text) example_loads ''Acne''
     = Inr (fallback_info ''Acne'')"
    by (simp add: get_disease_info_def fetch_and_parse_def clean_list_text
        example_loads_values ensure_fields_def)
  have b: "get_disease_info (\<lambda>prompt. Inl (OtherException ''deadline exceeded'')) example_loads
             ''Acne'' = Inr (fallback_info ''Acne'')"
    by (simp add: get_disease_info_def fetch_and_parse_def)
  show ?thesis using a b by blast
qed

text \<open>
  C8, amended. The fallback of the outer handler and the fallback built on a JSON
  decoding error have the same keys and differ in content for every disease name and
  text: the first carries severity unknown and three precautions, the second severity
  moderate and no precautions. The second is what \<^verbatim>\<open>get_disease_info\<close> returns when the
  cleaned text does not decode, and it is never the outcome of a call that raised. The
  first is returned when the call raises, and also when the text decodes to a value
  that is not an object or \<^verbatim>\<open>json.loads\<close> raises another exception.
\<close>

theorem fallback_records_by_outcome:
  "map fst (fallback_info disease_name) = map fst (parse_fallback full_name response_text)
   \<and> fallback_info disease_name \<noteq> parse_fallback full_name response_text
   \<and> map_of (fallback_info disease_name) ''severity'' = Some (PyStr (str_of ''unknown''))
   \<and> map_of (parse_fallback full_name response_text) ''severity''
       = Some (PyStr (str_of ''moderate''))
   \<and> map_of (fallback_info disease_name) ''precautions''
       = Some (PyList [PyStr (str_of ''Avoid excessive sun exposure''),
                       PyStr (str_of ''Use sunscreen''),
                       PyStr (str_of ''Keep skin moisturized'')])
   \<and> map_of (parse_fallback full_name response_text) ''precautions'' = Some (PyList [])
   \<and> ((\<exists>e. generate_content (full_name_of disease_name) = Inl e) \<longrightarrow>
        get_disease_info generate_content loads disease_name = Inr (fallback_info disease_name))
   \<and> (generate_content (full_name_of disease_name) = Inr text
          \<and> loads (clean_response text) = Inl (JSONDecodeError m) \<longrightarrow>
        get_disease_info generate_content loads disease_name
          = Inr (parse_fallback (full_name_of disease_name) (clean_response text)))
   \<and> (generate_content (full_name_of disease_name) = Inr text
          \<and> loads (clean_response text) = Inr v \<and> (\<forall>d. v \<noteq> PyDict d) \<longrightarrow>
        get_disease_info generate_content loads disease_name = Inr (fallback_info disease_name))
   \<and> (generate_content (full_name_of disease_name) = Inr text
          \<and> loads (clean_response text) = Inl e' \<and> \<not> is_JSONDecodeError e' \<longrightarrow>
        get_disease_info generate_content loads disease_name = Inr (fallback_info disease_name))
   \<and> (get_disease_info generate_content loads disease_name
          = Inr (parse_fallback full_name response_text) \<longrightarrow>
        (\<exists>t. generate_content (full_name_of disease_name) = Inr t))"
proof -
  have shape: "map fst (fallback_info disease_name) = map fst (parse_fallback full_name response_text)"
    by (simp add: fallback_info_keys parse_fallback_keys)
  have s1: "map_of (fallback_info disease_name) ''severity'' = Some (PyStr (str_of ''unknown''))"
    by (simp add: fallback_info_def)
  have s2: "map_of (parse_fallback full_name response_text) ''severity''
              = Some (PyStr (str_of ''moderate''))"
    by (simp add: parse_fallback_def)
  have p1: "map_of (fallback_info disease_name) ''precautions''
       = Some (PyList [PyStr (str_of ''Avoid excessive sun exposure''),
                       PyStr (str_of ''Use sunscreen''),
                       PyStr (str_of ''Keep skin moisturized'')])"
    by (simp add: fallback_info_def)
  have p2: "map_of (parse_fallback full_name response_text) ''precautions'' = Some (PyList [])"
    by (simp add: parse_fallback_def)
  have ne: "fallback_info disease_name \<noteq> parse_fallback full_name response_text"
    using s1 s2 by auto
  have t: "(\<exists>e. generate_content (full_name_of disease_name) = Inl e) \<longrightarrow>
        get_disease_info generate_content loads disease_name = Inr (fallback_info disease_name)"
    using generator_failure by blast
  have d: "generate_content (full_name_of disease_name) = Inr text
          \<and> loads (clean_response text) = Inl (JSONDecodeError m) \<longrightarrow>
        get_disease_info generate_content loads disease_name
          = Inr (parse_fallback (full_name_of disease_name) (clean_response text))"
    using decode_failure by blast
  have o: "generate_content (full_name_of disease_name) = Inr text
          \<and> loads (clean_response text) = Inr v \<and> (\<forall>d. v \<noteq> PyDict d) \<longrightarrow>
        get_disease_info generate_content loads disease_name = Inr (fallback_info disease_name)"
    using not_an_object [of generate_content disease_name "text" loads v] by blast
  have x: "generate_content (full_name_of disease_name) = Inr text
          \<and> loads (clean_response text) = Inl e' \<and> \<not> is_JSONDecodeError e' \<longrightarrow>
        get_disease_info generate_content loads disease_name = Inr (fallback_info disease_name)"
    using other_loads_failure [of generate_content disease_name "text" loads e'] by blast
  have c: "get_disease_info generate_content loads disease_name
          = Inr (parse_fallback full_name response_text) \<longrightarrow>
        (\<exists>t. generate_content (full_name_of disease_name) = Inr t)"
  proof
    assume a: "get_disease_info generate_content loads disease_name
                 = Inr (parse_fallback full_name response_text)"
    show "\<exists>t. generate_content (full_name_of disease_name) = Inr t"
    proof (cases "generate_content (full_name_of disease_name)")
      case (Inl e)
      then have "get_disease_info generate_content loads disease_name
                   = Inr (fallback_info disease_name)"
        by (rule generator_failure)
      then show ?thesis using a ne by simp
    next
      case (Inr t)
      then show ?thesis by blast
    qed
  qed
  show ?thesis using shape ne s1 s2 p1 p2 t d o x c by (intro conjI)
qed

theorem fallback_records_by_outcome_witness:
  "get_disease_info (\<lambda>prompt. Inl (OtherException ''timeout'')) example_loads ''SCC''
     = Inr (fallback_info ''SCC'')
   \<and> get_disease_info (\<lambda>prompt. Inr (str_of ''hello'')) example_loads ''SCC''
     = Inr (parse_fallback ''Squamous Cell Carcinoma'' (str_of ''hello''))
   \<and> get_disease_info (\<lambda>prompt. Inr list_text) example_loads ''SCC''
     = Inr (fallback_info ''SCC'')
   \<and> fallback_info ''SCC'' \<noteq> parse_fallback ''Squamous Cell Carcinoma'' (str_of ''hello'')"
proof -
  have c: "clean_response (str_of ''hello'') = str_of ''hello''"
    by (simp add: clean_response_def remove_markdown_def py_strip_def is_space_def
        startswith_def endswith_def str_of_simps)
  have l: "\<forall>d. PyList [PyInt 1, PyInt 2] \<noteq> PyDict d"
    by simp
  show ?thesis
    using fallback_records_by_outcome
      [of "''SCC''" "''Squamous Cell Carcinoma''" "str_of ''hello''"
          "\<lambda>prompt. Inl (OtherException ''timeout'')" example_loads]
      fallback_records_by_outcome
      [of "''SCC''" "''Squamous Cell Carcinoma''" "str_of ''hello''"
          "\<lambda>prompt. Inr (str_of ''hello'')" example_loads "str_of ''hello''"
          "''Expecting value''"]
      fallback_records_by_outcome
      [of "''SCC''" "''Squamous Cell Carcinoma''" "str_of ''hello''"
          "\<lambda>prompt. Inr list_text" example_loads list_text _ "PyList [PyInt 1, PyInt 2]"]
      c l clean_list_text example_loads_values full_name_examples
    by simp
qed

text \<open>
  C7, as the specification states it, fails: the description is cut from the text
  after the clean-up of lines 81 to 100, which is not a prefix of the raw text when the
  clean-up removes something in front. For the raw text \<^verbatim>\<open>Sorry {x}\<close> the regular
  expression keeps \<^verbatim>\<open>{x}\<close>, which becomes the description.
\<close>

theorem parse_failure_description_not_prefix_of_raw_text:
  "get_disease_info (\<lambda>prompt. Inr (str_of ''Sorry {x}'')) example_loads ''Acne''
     = Inr (parse_fallback ''Acne'' (str_of ''{x}''))
   \<and> map_of (parse_fallback ''Acne'' (str_of ''{x}'')) ''description''
       = Some (PyStr (str_of ''{x}''))
   \<and> \<not> prefix (str_of ''{x}'') (str_of ''Sorry {x}'')"
proof -
  have g: "get_disease_info (\<lambda>prompt. Inr (str_of ''Sorry {x}'')) example_loads ''Acne''
           = Inr (parse_fallback ''Acne'' (str_of ''{x}''))"
    using decode_failure [of "\<lambda>prompt. Inr (str_of ''Sorry {x}'')" "''Acne''"
        "str_of ''Sorry {x}''" example_loads "''Expecting value''"]
    by (simp add: clean_sorry_text example_loads_values full_name_examples)
  have d: "map_of (parse_fallback ''Acne'' (str_of ''{x}'')) ''description''
             = Some (PyStr (str_of ''{x}''))"
    by (simp add: parse_fallback_def str_of_simps)
  have n: "\<not> prefix (str_of ''{x}'') (str_of ''Sorry {x}'')"
    by (simp add: str_of_simps)
  show ?thesis using g d n by blast
qed

text \<open>
  C7, amended. When \<^verbatim>\<open>json.loads\<close> raises JSONDecodeError on the cleaned text, the
  record returned has as description the first 300 characters of the cleaned text (the
  raw text stripped, without its fence markers, cut down to the first brace-delimited
  object when there is one), and the other fields are the fixed values of lines 110 to
  116 with the full name of the disease.
\<close>

theorem parse_failure_description_is_prefix_of_cleaned_text:
  assumes "generate_content (full_name_of disease_name) = Inr text"
    and "loads (clean_response text) = Inl (JSONDecodeError m)"
  shows "\<exists>description.
           get_disease_info generate_content loads disease_name
             = Inr [(''name'', PyStr (str_of (full_name_of disease_name))),
                    (''description'', PyStr description),
                    (''symptoms'', PyList []),
                    (''cure'',
                       PyStr (str_of ''Please consult a dermatologist for proper treatment.'')),
                    (''precautions'', PyList []),
                    (''severity'', PyStr (str_of ''moderate'')),
                    (''when_to_see_doctor'',
                       PyStr (str_of
                         ''Consult a healthcare professional for proper diagnosis and treatment.''))]
         \<and> description = take 300 (clean_response text)
         \<and> prefix description (clean_response text)
         \<and> length description \<le> 300"
proof -
  have "get_disease_info generate_content loads disease_name
          = Inr (parse_fallback (full_name_of disease_name) (clean_response text))"
    using assms by (rule decode_failure)
  then show ?thesis
    by (simp add: parse_fallback_def take_is_prefix)
qed

theorem parse_failure_description_witness:
  "get_disease_info (\<lambda>prompt. Inr ([0xA0] @ str_of ''hello'' @ [0x85, 0x2003])) example_loads
       ''Acne''
     = Inr [(''name'', PyStr (str_of ''Acne'')),
            (''description'', PyStr (str_of ''hello'')),
            (''symptoms'', PyList []),
            (''cure'', PyStr (str_of ''Please consult a dermatologist for proper treatment.'')),
            (''precautions'', PyList []),
            (''severity'', PyStr (str_of ''moderate'')),
            (''when_to_see_doctor'',
               PyStr (str_of
                 ''Consult a healthcare professional for proper diagnosis and treatment.''))]"
  using parse_failure_description_is_prefix_of_cleaned_text
      [of "\<lambda>prompt. Inr ([0xA0] @ str_of ''hello'' @ [0x85, 0x2003])" "''Acne''"
          "[0xA0] @ str_of ''hello'' @ [0x85, 0x2003]" example_loads "''Expecting value''"]
      clean_nbsp_text example_loads_values full_name_examples
  by (simp add: str_of_simps)

section \<open>Properties of the model service\<close>

lemma np_argmax_less: "xs \<noteq> [] \<Longrightarrow> np_argmax xs < length xs"
  by (induction xs rule: np_argmax.induct) (auto simp: Let_def)

lemma np_argmax_max: "xs \<noteq> [] \<Longrightarrow> xs ! np_argmax xs = Max (set xs)"
proof (induction xs rule: np_argmax.induct)
  case 1
  then show ?case by simp
next
  case (2 x)
  then show ?case by simp
next
  case (3 x y ys)
  have ih: "(y # ys) ! np_argmax (y # ys) = Max (set (y # ys))"
    using 3 by simp
  have "Max (insert x (set (y # ys))) = max x (Max (set (y # ys)))"
    by (rule Max_insert) simp_all
  then have m: "Max (set (x # y # ys)) = max x (Max (set (y # ys)))"
    by simp
  show ?case
  proof (cases "x < (y # ys) ! np_argmax (y # ys)")
    case True
    then have "np_argmax (x # y # ys) = Suc (np_argmax (y # ys))"
      by (simp add: Let_def)
    then show ?thesis using True ih m by (simp add: max_def del: Max_insert set_simps)
  next
    case False
    then have "np_argmax (x # y # ys) = 0"
      by (simp add: Let_def)
    then show ?thesis using False ih m by (simp add: max_def del: Max_insert set_simps)
  qed
qed

lemma np_argmax_first: "j < np_argmax xs \<Longrightarrow> xs ! j < xs ! np_argmax xs"
proof (induction xs arbitrary: j rule: np_argmax.induct)
  case 1
  then show ?case by simp
next
  case (2 x)
  then show ?case by simp
next
  case (3 x y ys)
  then show ?case
    by (cases j) (auto simp: Let_def split: if_splits)
qed

lemma np_argmax_Cons:
  "ys \<noteq> [] \<Longrightarrow> np_argmax (x # ys) = (if x < ys ! np_argmax ys then Suc (np_argmax ys) else 0)"
  by (cases ys) (simp_all add: Let_def)

lemma predict_Inr:
  assumes "predict ms img = Inr r"
  shows "\<exists>probs. probabilities_of ms img = Inr probs \<and> length DISEASE_CATEGORIES \<le> length probs
           \<and> disease r = dict_get DISEASE_CATEGORIES (np_argmax probs) ''Unknown''
           \<and> confidence r = probs ! np_argmax probs
           \<and> all_predictions r = map (\<lambda>(i, name). (name, probs ! i)) DISEASE_CATEGORIES"
  using assms unfolding predict_def Let_def
  by (auto split: if_splits sum.splits)

lemma length_categories: "length DISEASE_CATEGORIES = 6"
  by (simp add: DISEASE_CATEGORIES_def)

lemma six_elements:
  assumes "length (xs::'a list) = 6"
  obtains a b c d e f where "xs = [a, b, c, d, e, f]"
proof -
  from assms obtain a xs1 where 1: "xs = a # xs1" "length xs1 = 5"
    by (cases xs) auto
  then obtain b xs2 where 2: "xs1 = b # xs2" "length xs2 = 4"
    by (cases xs1) auto
  then obtain c xs3 where 3: "xs2 = c # xs3" "length xs3 = 3"
    by (cases xs2) auto
  then obtain d xs4 where 4: "xs3 = d # xs4" "length xs4 = 2"
    by (cases xs3) auto
  then obtain e xs5 where 5: "xs4 = e # xs5" "length xs5 = 1"
    by (cases xs4) auto
  then obtain f where 6: "xs5 = [f]"
    by (cases xs5) auto
  show ?thesis using that 1 2 3 4 5 6 by simp
qed

lemma predictions_of_six:
  assumes "length probs = 6"
  shows "map snd (map (\<lambda>(i, name). (name, probs ! i)) DISEASE_CATEGORIES) = probs"
proof -
  obtain a b c d e f where "probs = [a, b, c, d, e, f]"
    using assms by (rule six_elements)
  then show ?thesis by (simp add: DISEASE_CATEGORIES_def)
qed

lemma category_of_index:
  assumes "i < 6"
  shows "dict_get DISEASE_CATEGORIES i ''Unknown''
           = fst (map (\<lambda>(i, name). (name, probs ! i)) DISEASE_CATEGORIES ! i)"
proof -
  have "i = 0 \<or> i = 1 \<or> i = 2 \<or> i = 3 \<or> i = 4 \<or> i = 5"
    using assms by arith
  then show ?thesis
    by (auto simp: DISEASE_CATEGORIES_def dict_get_def)
qed

lemma predict_six_categories: "predict ms img = Inr r \<Longrightarrow> length (all_predictions r) = 6"
  using predict_Inr [of ms img r] by (auto simp: length_categories)

section \<open>Properties of the scan endpoints\<close>

subsection \<open>The sorted distribution\<close>

lemma map_insort_key: "map f (insort_key f x xs) = insort (f x) (map f xs)"
  by (induction xs) auto

lemma map_sort_key: "map f (sort_key f xs) = sort (map f xs)"
  by (induction xs) (auto simp: map_insort_key)

lemma sort_uminus: "sort (map uminus (xs::real list)) = map uminus (rev (sort xs))"
proof (rule properties_for_sort)
  show "mset (map uminus (rev (sort xs))) = mset (map uminus xs)"
    by simp
  show "sorted (map uminus (rev (sort xs)))"
    by (simp add: sorted_map sorted_wrt_rev sorted_wrt_map flip: rev_map)
qed

lemma map_snd_sorted_predictions:
  "map snd (sorted_predictions_of ps) = rev (sort (map snd ps))"
proof -
  have "map snd (sorted_predictions_of ps)
          = map uminus (map (\<lambda>x. - snd x) (sort_key (\<lambda>x. - snd x) ps))"
    by (simp add: sorted_predictions_of_def)
  also have "\<dots> = map uminus (sort (map (\<lambda>x. - snd x) ps))"
    by (simp only: map_sort_key)
  also have "\<dots> = map uminus (sort (map uminus (map snd ps)))"
    by (simp add: comp_def)
  also have "\<dots> = rev (sort (map snd ps))"
    by (simp only: sort_uminus) (simp add: comp_def)
  finally show ?thesis .
qed

lemma hd_insort_key:
  "hd (insort_key f x xs) = (if xs = [] \<or> f x \<le> f (hd xs) then x else hd xs)"
  by (cases xs) auto

lemma hd_sorted_predictions:
  "ps \<noteq> [] \<Longrightarrow> hd (sorted_predictions_of ps) = ps ! np_argmax (map snd ps)"
proof (induction ps)
  case Nil
  then show ?case by simp
next
  case (Cons p ps)
  show ?case
  proof (cases "ps = []")
    case True
    then show ?thesis by (simp add: sorted_predictions_of_def)
  next
    case False
    have ih: "hd (sorted_predictions_of ps) = ps ! np_argmax (map snd ps)"
      using Cons.IH False by simp
    have lt: "np_argmax (map snd ps) < length ps"
      using np_argmax_less [of "map snd ps"] False by simp
    have sne: "sort_key (\<lambda>x. - snd x) ps \<noteq> []"
      using False by (metis length_sort length_0_conv)
    have "np_argmax (snd p # map snd ps)
                = (if snd p < map snd ps ! np_argmax (map snd ps)
                   then Suc (np_argmax (map snd ps)) else 0)"
      using False by (intro np_argmax_Cons) simp
    then have am: "np_argmax (map snd (p # ps))
                = (if snd p < snd (ps ! np_argmax (map snd ps))
                   then Suc (np_argmax (map snd ps)) else 0)"
      using lt by simp
    show ?thesis
      using ih sne am False
      by (auto simp add: sorted_predictions_of_def hd_insort_key)
  qed
qed

lemma sorted_predictions_Nil: "sorted_predictions_of ps = [] \<longleftrightarrow> ps = []"
  by (metis sorted_predictions_of_def length_sort length_0_conv)

lemma top_prediction_nth:
  "ps \<noteq> [] \<Longrightarrow> top_prediction_of (sorted_predictions_of ps) = rev (sort (map snd ps)) ! 0"
proof -
  assume ne: "ps \<noteq> []"
  then have sne: "sorted_predictions_of ps \<noteq> []"
    by (metis sorted_predictions_of_def length_sort length_0_conv)
  then have "snd (sorted_predictions_of ps ! 0) = map snd (sorted_predictions_of ps) ! 0"
    by simp
  then show ?thesis using sne
    by (simp add: top_prediction_of_def map_snd_sorted_predictions)
qed

lemma second_prediction_nth:
  "1 < length ps \<Longrightarrow> second_prediction_of (sorted_predictions_of ps) = rev (sort (map snd ps)) ! 1"
proof -
  assume l: "1 < length ps"
  then have sl: "1 < length (sorted_predictions_of ps)"
    by (simp add: sorted_predictions_of_def)
  then have "snd (sorted_predictions_of ps ! 1) = map snd (sorted_predictions_of ps) ! 1"
    by simp
  then show ?thesis using sl
    by (simp add: second_prediction_of_def map_snd_sorted_predictions)
qed

lemma top_is_confidence:
  assumes "predict ms img = Inr r" "probabilities_of ms img = Inr probs" "length probs = 6"
  shows "map snd (all_predictions r) = probs"
    and "top_prediction_of (sorted_predictions_of (all_predictions r)) = confidence r"
    and "fst (hd (sorted_predictions_of (all_predictions r))) = disease r"
    and "length (all_predictions r) = 6"
proof -
  obtain probs' where p: "probabilities_of ms img = Inr probs'"
      "disease r = dict_get DISEASE_CATEGORIES (np_argmax probs') ''Unknown''"
      "confidence r = probs' ! np_argmax probs'"
      "all_predictions r = map (\<lambda>(i, name). (name, probs' ! i)) DISEASE_CATEGORIES"
    using predict_Inr [OF assms(1)] by blast
  have e: "probs' = probs" using p(1) assms(2) by simp
  show m: "map snd (all_predictions r) = probs"
    using p(4) e predictions_of_six [OF assms(3)] by simp
  show l: "length (all_predictions r) = 6"
    using p(4) by (simp add: length_categories)
  have ne: "all_predictions r \<noteq> []" using l by auto
  have "probs \<noteq> []" using assms(3) by auto
  then have lt: "np_argmax probs < 6"
    using np_argmax_less [of probs] assms(3) by simp
  have h: "hd (sorted_predictions_of (all_predictions r)) = all_predictions r ! np_argmax probs"
    using hd_sorted_predictions [OF ne] m by simp
  have sne: "sorted_predictions_of (all_predictions r) \<noteq> []"
    using ne by (metis sorted_predictions_of_def length_sort length_0_conv)
  have "snd (all_predictions r ! np_argmax probs) = map snd (all_predictions r) ! np_argmax probs"
    using lt l by simp
  then have "snd (hd (sorted_predictions_of (all_predictions r))) = confidence r"
    using h m p(3) e by simp
  then show "top_prediction_of (sorted_predictions_of (all_predictions r)) = confidence r"
    using sne by (simp add: top_prediction_of_def hd_conv_nth)
  show "fst (hd (sorted_predictions_of (all_predictions r))) = disease r"
    using h p(2) p(4) e category_of_index [OF lt, of probs] by simp
qed

subsection \<open>The fetches and the assembly of the response\<close>

lemma fetch_returns:
  "\<exists>info. fetch ks loads d calls = (Inr info, calls @ [d])
          \<and> get_disease_info (ks (length calls)) loads d = Inr info"
  using get_disease_info_returns [of "ks (length calls)" loads d]
  by (auto simp: fetch_def)

lemma fetch_candidate_infos_calls:
  "fst (fetch_candidate_infos ks loads d info cs (calls, m))
     = calls @ filter (\<lambda>c. c \<noteq> d) (map fst cs)"
proof (induction cs arbitrary: calls m)
  case Nil
  then show ?case by simp
next
  case (Cons cp cs)
  obtain c p where cp: "cp = (c, p)" by (cases cp)
  show ?case
  proof (cases "c = d")
    case True
    then show ?thesis using Cons cp by simp
  next
    case False
    obtain fetched where "fetch ks loads c calls = (Inr fetched, calls @ [c])"
      using fetch_returns by blast
    then show ?thesis using Cons cp False by simp
  qed
qed

lemma fetch_candidate_infos_primary:
  "snd (fetch_candidate_infos ks loads d info cs (calls, m)) d
     = (if d \<in> fst ` set cs then Some info else m d)"
proof (induction cs arbitrary: calls m)
  case Nil
  then show ?case by simp
next
  case (Cons cp cs)
  obtain c p where cp: "cp = (c, p)" by (cases cp)
  show ?case
  proof (cases "c = d")
    case True
    then show ?thesis using Cons cp by simp
  next
    case False
    obtain fetched where "fetch ks loads c calls = (Inr fetched, calls @ [c])"
      using fetch_returns by blast
    then show ?thesis using Cons cp False by auto
  qed
qed

lemma enrich_low:
  assumes "low" "sp \<noteq> []"
  shows "enrich ks loads d info low sp calls
           = ((build_alternates
                 (snd (fetch_candidate_infos ks loads d info (take 3 sp) (calls, Map.empty)))
                 (take 3 sp),
               generic_disease_info, Some warning_text),
              fst (fetch_candidate_infos ks loads d info (take 3 sp) (calls, Map.empty)))"
  using assms by (simp add: enrich_def Let_def split: prod.splits)

lemma enrich_not_low:
  assumes "\<not> (low \<and> sp \<noteq> [])"
  shows "enrich ks loads d info low sp calls = (([], info, None), calls)"
  using assms by (auto simp add: enrich_def)

lemma build_alternates_pairs:
  "map (\<lambda>a. (alt_name a, alt_probability a)) (build_alternates m cs) = cs"
  by (induction cs) (auto simp: build_alternates_def)

lemma build_alternates_info:
  "a \<in> set (build_alternates m cs) \<Longrightarrow> m (alt_name a) = Some i \<Longrightarrow> alt_disease_info a = i"
  by (auto simp: build_alternates_def)

lemma build_alternates_names:
  "map alt_name (build_alternates m cs) = map fst cs"
  by (induction cs) (auto simp: build_alternates_def)

lemma analyze_core_Inr:
  assumes "analyze_core ks loads r = Inr (resp, calls)"
  shows "\<exists>info alternates info' warning.
           get_disease_info (ks 0) loads (disease r) = Inr info
         \<and> enrich ks loads (disease r) info (low_confidence_analyze r)
              (sorted_predictions_of (all_predictions r)) [disease r]
             = ((alternates, info', warning), calls)
         \<and> resp = \<lparr>success = True, r_disease = disease r, r_confidence = confidence r,
                    is_low_confidence = low_confidence_analyze r,
                    confidence_warning = warning, disease_info = info',
                    r_all_predictions = all_predictions r,
                    alternate_diseases = alternates, model_version = ''1.0.0''\<rparr>"
  using assms unfolding analyze_core_def Let_def fetch_def
  by (auto split: sum.splits prod.splits)

lemma analyze_core_returns: "\<exists>resp calls. analyze_core ks loads r = Inr (resp, calls)"
  using get_disease_info_returns [of "ks 0" loads "disease r"]
  unfolding analyze_core_def Let_def fetch_def
  by (auto split: sum.splits prod.splits)

lemma analyze_core_fields:
  assumes "analyze_core ks loads r = Inr (resp, calls)"
  shows "r_disease resp = disease r" "r_all_predictions resp = all_predictions r"
    "is_low_confidence resp = low_confidence_analyze r" "r_confidence resp = confidence r"
  using analyze_core_Inr [OF assms] by auto

lemma analyze_scan_Inr:
  assumes "analyze_scan ms ks loads file = Inr (resp, calls)"
  shows "\<exists>img r. decoded_image file = Inr img \<and> predict ms img = Inr r
           \<and> analyze_core ks loads r = Inr (resp, calls)"
  using assms unfolding analyze_scan_def
  by (auto split: option.splits if_splits sum.splits)

lemma analyze_core_low:
  assumes "analyze_core ks loads r = Inr (resp, calls)"
    and "is_low_confidence resp" and "all_predictions r \<noteq> []"
  shows "\<exists>info m. get_disease_info (ks 0) loads (disease r) = Inr info
         \<and> m (disease r) = (if disease r \<in> fst ` set (take 3 (sorted_predictions_of (all_predictions r)))
                            then Some info else None)
         \<and> alternate_diseases resp
             = build_alternates m (take 3 (sorted_predictions_of (all_predictions r)))
         \<and> disease_info resp = generic_disease_info
         \<and> confidence_warning resp = Some warning_text
         \<and> calls = disease r # filter (\<lambda>c. c \<noteq> disease r)
                      (map fst (take 3 (sorted_predictions_of (all_predictions r))))"
proof -
  obtain info alternates info' warning where a:
    "get_disease_info (ks 0) loads (disease r) = Inr info"
    "enrich ks loads (disease r) info (low_confidence_analyze r)
        (sorted_predictions_of (all_predictions r)) [disease r]
       = ((alternates, info', warning), calls)"
    "resp = \<lparr>success = True, r_disease = disease r, r_confidence = confidence r,
              is_low_confidence = low_confidence_analyze r,
              confidence_warning = warning, disease_info = info',
              r_all_predictions = all_predictions r,
              alternate_diseases = alternates, model_version = ''1.0.0''\<rparr>"
    using analyze_core_Inr [OF assms(1)] by blast
  have low: "low_confidence_analyze r" using a(3) assms(2) by simp
  have ne: "sorted_predictions_of (all_predictions r) \<noteq> []"
    using assms(3) by (simp add: sorted_predictions_Nil)
  let ?cs = "take 3 (sorted_predictions_of (all_predictions r))"
  let ?F = "fetch_candidate_infos ks loads (disease r) info ?cs ([disease r], Map.empty)"
  have e: "((alternates, info', warning), calls)
             = ((build_alternates (snd ?F) ?cs, generic_disease_info, Some warning_text), fst ?F)"
    using enrich_low [OF low ne] a(2) by simp
  have c: "fst ?F = [disease r] @ filter (\<lambda>c. c \<noteq> disease r) (map fst ?cs)"
    by (rule fetch_candidate_infos_calls)
  have m: "snd ?F (disease r) = (if disease r \<in> fst ` set ?cs then Some info else None)"
    using fetch_candidate_infos_primary [of ks loads "disease r" info ?cs "[disease r]" Map.empty]
    by simp
  have alts: "alternate_diseases resp = build_alternates (snd ?F) ?cs"
    using a(3) e by simp
  have di: "disease_info resp = generic_disease_info"
    using a(3) e by simp
  have w: "confidence_warning resp = Some warning_text"
    using a(3) e by simp
  have cl: "calls = disease r # filter (\<lambda>c. c \<noteq> disease r) (map fst ?cs)"
    using e c by simp
  show ?thesis using a(1) m alts di w cl by blast
qed

lemma analyze_core_not_low:
  assumes "analyze_core ks loads r = Inr (resp, calls)"
    and "\<not> (is_low_confidence resp \<and> all_predictions r \<noteq> [])"
  shows "get_disease_info (ks 0) loads (disease r) = Inr (disease_info resp)
         \<and> alternate_diseases resp = []
         \<and> confidence_warning resp = None
         \<and> calls = [disease r]"
proof -
  obtain info alternates info' warning where a:
    "get_disease_info (ks 0) loads (disease r) = Inr info"
    "enrich ks loads (disease r) info (low_confidence_analyze r)
        (sorted_predictions_of (all_predictions r)) [disease r]
       = ((alternates, info', warning), calls)"
    "resp = \<lparr>success = True, r_disease = disease r, r_confidence = confidence r,
              is_low_confidence = low_confidence_analyze r,
              confidence_warning = warning, disease_info = info',
              r_all_predictions = all_predictions r,
              alternate_diseases = alternates, model_version = ''1.0.0''\<rparr>"
    using analyze_core_Inr [OF assms(1)] by blast
  have "\<not> (low_confidence_analyze r \<and> sorted_predictions_of (all_predictions r) \<noteq> [])"
    using a(3) assms(2) by (simp add: sorted_predictions_Nil)
  then have "((alternates, info', warning), calls) = (([], info, None), [disease r])"
    using enrich_not_low a(2) by metis
  then show ?thesis using a(1,3) by simp
qed

lemma low_confidence_same: "low_confidence_analyze r = low_confidence_base64 r"
  by (simp add: low_confidence_analyze_def low_confidence_base64_def Let_def)

lemma cores_same: "analyze_core ks loads r = analyze_base64_core ks loads r"
  unfolding analyze_core_def analyze_base64_core_def Let_def low_confidence_same
  by (rule refl)

lemma spec_classify_predict:
  assumes "predict ms img = Inr r" "probabilities_of ms img = Inr probs" "length probs = 6"
  shows "\<exists>cands. spec_classify (all_predictions r) 0.70 0.20 3
                   = Inr (disease r, low_confidence_analyze r, cands)"
proof -
  note t = top_is_confidence [OF assms]
  have l: "length (sorted_predictions_of (all_predictions r)) = 6"
    using t(4) by (simp add: sorted_predictions_of_def)
  then obtain a b c d e f where s: "sorted_predictions_of (all_predictions r) = [a, b, c, d, e, f]"
    by (rule six_elements)
  have top: "snd a = confidence r" "fst a = disease r"
    using t(2,3) s by (simp_all add: top_prediction_of_def)
  have low: "low_confidence_analyze r = (snd a < 0.70 \<or> snd a - snd b < 0.20)"
    unfolding low_confidence_analyze_def Let_def CONFIDENCE_THRESHOLD_def s
    using top by (simp add: top_prediction_of_def second_prediction_of_def)
  have "sort_key (\<lambda>e. - snd e) (all_predictions r) = [a, b, c, d, e, f]"
    using s by (simp add: sorted_predictions_of_def)
  then show ?thesis
    unfolding spec_classify_def using top low by (simp add: Let_def)
qed

subsection \<open>The scenarios evaluated\<close>

lemma scenario_predict: "predict scenario_model () = Inr scenario_prediction"
  by (simp add: predict_def scenario_model_def scenario_probabilities_def scenario_prediction_def
      DISEASE_CATEGORIES_def dict_get_def Let_def)

lemma offline_fetch: "get_disease_info (offline_source n) loads d = Inr (fallback_info d)"
  by (rule generator_failure) (simp add: offline_source_def)

lemma scenario_sorted:
  "sorted_predictions_of (all_predictions scenario_prediction)
     = [(''Melanoma'', 0.55), (''SCC'', 0.40), (''BCC'', 0.05), (''Acne'', 0), (''Eczema'', 0),
        (''Psoriasis'', 0)]"
  by (simp add: sorted_predictions_of_def scenario_prediction_def)

lemma scenario_low: "low_confidence_analyze scenario_prediction"
  unfolding low_confidence_analyze_def Let_def scenario_sorted
  by (simp add: top_prediction_of_def second_prediction_of_def CONFIDENCE_THRESHOLD_def
      scenario_prediction_def)

lemma scenario_core:
  "analyze_core offline_source failing_loads scenario_prediction
     = Inr (scenario_response, [''Melanoma'', ''SCC'', ''BCC''])"
  unfolding analyze_core_def Let_def scenario_sorted
  by (simp add: scenario_low fetch_def offline_fetch enrich_def build_alternates_def
      scenario_response_def)
     (simp add: scenario_prediction_def)

lemma scenario_scan:
  "analyze_scan scenario_model offline_source failing_loads scenario_upload
     = Inr (scenario_response, [''Melanoma'', ''SCC'', ''BCC''])"
  by (simp add: analyze_scan_def scenario_upload_def startswith_def scenario_predict scenario_core)

subsection \<open>The claims\<close>

text \<open>
  C1. For a classifier that returns one probability per category, the decision of
  \<^verbatim>\<open>/analyze\<close> is: the top probability is below 0.70, or the top probability minus the
  second one is below 0.20, where top and second are the two largest entries of the
  distribution. In particular a distribution whose two largest probabilities are less
  than 0.20 apart is low-confidence whatever the top probability is.
\<close>

theorem ambiguity_rule:
  assumes "analyze_scan ms ks loads file = Inr (resp, calls)"
    and "decoded_image file = Inr img"
    and "probabilities_of ms img = Inr probs"
    and "length probs = 6"
  shows "map snd (r_all_predictions resp) = probs
       \<and> is_low_confidence resp
           = (rev (sort probs) ! 0 < 0.70 \<or> rev (sort probs) ! 0 - rev (sort probs) ! 1 < 0.20)
       \<and> (rev (sort probs) ! 0 - rev (sort probs) ! 1 < 0.20 \<longrightarrow> is_low_confidence resp)"
proof -
  obtain img' r where r: "decoded_image file = Inr img'" "predict ms img' = Inr r"
      "analyze_core ks loads r = Inr (resp, calls)"
    using analyze_scan_Inr [OF assms(1)] by blast
  have pr: "predict ms img = Inr r" using r(1,2) assms(2) by simp
  note t = top_is_confidence [OF pr assms(3,4)]
  have resp: "is_low_confidence resp = low_confidence_analyze r"
      "r_all_predictions resp = all_predictions r"
    using analyze_core_Inr [OF r(3)] by auto
  have ne: "all_predictions r \<noteq> []" and l: "1 < length (all_predictions r)"
    using t(4) by auto
  have top: "confidence r = rev (sort probs) ! 0"
    using top_prediction_nth [OF ne] t(1,2) by simp
  have snd: "second_prediction_of (sorted_predictions_of (all_predictions r)) = rev (sort probs) ! 1"
    using second_prediction_nth [OF l] t(1) by simp
  have low: "low_confidence_analyze r
           = (rev (sort probs) ! 0 < 0.70 \<or> rev (sort probs) ! 0 - rev (sort probs) ! 1 < 0.20)"
    unfolding low_confidence_analyze_def Let_def CONFIDENCE_THRESHOLD_def
    using top snd t(2) by simp
  show ?thesis using resp low t(1) by simp
qed

theorem ambiguity_rule_witness:
  "analyze_scan scenario_model offline_source failing_loads scenario_upload
     = Inr (scenario_response, [''Melanoma'', ''SCC'', ''BCC''])
   \<and> length scenario_probabilities = 6
   \<and> rev (sort scenario_probabilities) ! 0 - rev (sort scenario_probabilities) ! 1 < 0.20
   \<and> is_low_confidence scenario_response"
proof -
  have d: "decoded_image scenario_upload = Inr ()"
    by (simp add: scenario_upload_def)
  have p: "probabilities_of scenario_model () = Inr scenario_probabilities"
    by (simp add: scenario_model_def)
  have l: "length scenario_probabilities = 6"
    by (simp add: scenario_probabilities_def)
  have m: "rev (sort scenario_probabilities) ! 0 - rev (sort scenario_probabilities) ! 1 < 0.20"
    by (simp add: scenario_probabilities_def)
  show ?thesis
    using ambiguity_rule [OF scenario_scan d p l] scenario_scan l m by simp
qed

text \<open>
  C3. In every response of \<^verbatim>\<open>/analyze\<close>: when \<open>is_low_confidence\<close> is true, the record
  returned is the static Multiple Possibilities record and the confidence warning is
  set; when it is false, the warning is absent, the list of alternates is empty and the
  record is the one fetched for the disease.
\<close>

theorem ambiguous_result_overrides_record:
  assumes "analyze_scan ms ks loads file = Inr (resp, calls)"
  shows "(is_low_confidence resp \<longrightarrow>
            disease_info resp = generic_disease_info
          \<and> map_of (disease_info resp) ''name'' = Some (PyStr (str_of ''Multiple Possibilities''))
          \<and> confidence_warning resp = Some warning_text)
       \<and> (\<not> is_low_confidence resp \<longrightarrow>
            confidence_warning resp = None
          \<and> alternate_diseases resp = []
          \<and> get_disease_info (ks 0) loads (r_disease resp) = Inr (disease_info resp))"
proof -
  obtain img r where r: "decoded_image file = Inr img" "predict ms img = Inr r"
      "analyze_core ks loads r = Inr (resp, calls)"
    using analyze_scan_Inr [OF assms] by blast
  have ne: "all_predictions r \<noteq> []"
    using predict_six_categories [OF r(2)] by auto
  have n: "map_of generic_disease_info ''name'' = Some (PyStr (str_of ''Multiple Possibilities''))"
    by (simp add: generic_disease_info_def)
  have d: "r_disease resp = disease r"
    using r(3) by (rule analyze_core_fields)
  show ?thesis
  proof (cases "is_low_confidence resp")
    case True
    then show ?thesis using analyze_core_low [OF r(3) True ne] n by auto
  next
    case False
    then show ?thesis using analyze_core_not_low [OF r(3)] d by auto
  qed
qed

theorem ambiguous_result_overrides_record_witness:
  "analyze_scan scenario_model offline_source failing_loads scenario_upload
     = Inr (scenario_response, [''Melanoma'', ''SCC'', ''BCC''])
   \<and> is_low_confidence scenario_response
   \<and> disease_info scenario_response = generic_disease_info
   \<and> confidence_warning scenario_response = Some warning_text"
  using ambiguous_result_overrides_record [OF scenario_scan] scenario_scan
  by (simp add: scenario_response_def)

text \<open>
  C4. The alternates never number more than 3 nor more than the categories of the
  distribution. When \<open>is_low_confidence\<close> is true they are the first three entries of the
  distribution sorted by descending probability (fewer when there are fewer), the entry
  of the primary disease carries the record of the first fetch, and the knowledge source
  is called once for the primary and once for each other candidate. For a classifier
  that returns one probability per category the primary is the first alternate.
\<close>

theorem candidates_of_ambiguous_result:
  assumes "analyze_core ks loads r = Inr (resp, calls)"
  shows "length (alternate_diseases resp) \<le> 3
       \<and> length (alternate_diseases resp) \<le> length (all_predictions r)
       \<and> (is_low_confidence resp \<longrightarrow>
            map (\<lambda>a. (alt_name a, alt_probability a)) (alternate_diseases resp)
              = take 3 (sorted_predictions_of (all_predictions r))
          \<and> map alt_probability (alternate_diseases resp)
              = take 3 (rev (sort (map snd (all_predictions r))))
          \<and> (\<forall>a \<in> set (alternate_diseases resp). alt_name a = disease r \<longrightarrow>
                get_disease_info (ks 0) loads (disease r) = Inr (alt_disease_info a))
          \<and> calls = disease r # filter (\<lambda>c. c \<noteq> disease r)
                                  (map alt_name (alternate_diseases resp)))
       \<and> (is_low_confidence resp \<and> predict ms img = Inr r
            \<and> probabilities_of ms img = Inr probs \<and> length probs = 6 \<longrightarrow>
            length (alternate_diseases resp) = 3
          \<and> alt_name (hd (alternate_diseases resp)) = disease r)"
proof (cases "is_low_confidence resp \<and> all_predictions r \<noteq> []")
  case False
  have e: "alternate_diseases resp = []" "calls = [disease r]"
    using analyze_core_not_low [OF assms False] by simp_all
  have n: "all_predictions r \<noteq> []" if "predict ms img = Inr r"
    using predict_six_categories [OF that] by auto
  have s: "all_predictions r = [] \<Longrightarrow> sorted_predictions_of (all_predictions r) = []"
    by (simp add: sorted_predictions_Nil)
  show ?thesis
  proof (cases "is_low_confidence resp")
    case True
    then have "all_predictions r = []" using False by simp
    then show ?thesis using e s n by auto
  next
    case False
    then show ?thesis using e by simp
  qed
next
  case True
  let ?cs = "take 3 (sorted_predictions_of (all_predictions r))"
  obtain info m where a: "get_disease_info (ks 0) loads (disease r) = Inr info"
      "m (disease r) = (if disease r \<in> fst ` set ?cs then Some info else None)"
      "alternate_diseases resp = build_alternates m ?cs"
      "calls = disease r # filter (\<lambda>c. c \<noteq> disease r) (map fst ?cs)"
    using analyze_core_low [OF assms] True by blast
  have pairs: "map (\<lambda>a. (alt_name a, alt_probability a)) (alternate_diseases resp) = ?cs"
    using a(3) by (simp add: build_alternates_pairs)
  have names: "map alt_name (alternate_diseases resp) = map fst ?cs"
    using a(3) by (simp add: build_alternates_names)
  have "map alt_probability (alternate_diseases resp)
          = map snd (map (\<lambda>a. (alt_name a, alt_probability a)) (alternate_diseases resp))"
    by (simp add: comp_def)
  also have "\<dots> = take 3 (map snd (sorted_predictions_of (all_predictions r)))"
    by (simp only: pairs take_map)
  finally have probs: "map alt_probability (alternate_diseases resp)
          = take 3 (rev (sort (map snd (all_predictions r))))"
    by (simp only: map_snd_sorted_predictions)
  have len: "length (alternate_diseases resp) = min 3 (length (all_predictions r))"
    using arg_cong [OF pairs, of length] by (simp add: sorted_predictions_of_def min.commute)
  have reuse: "\<forall>a \<in> set (alternate_diseases resp). alt_name a = disease r \<longrightarrow>
                get_disease_info (ks 0) loads (disease r) = Inr (alt_disease_info a)"
  proof (intro ballI impI)
    fix a assume in_a: "a \<in> set (alternate_diseases resp)" and nm: "alt_name a = disease r"
    have "alt_name a \<in> set (map fst ?cs)"
      using in_a names by (metis image_eqI list.set_map)
    then have "m (alt_name a) = Some info"
      using a(2) nm by simp
    then have "alt_disease_info a = info"
      using in_a a(3) build_alternates_info by metis
    then show "get_disease_info (ks 0) loads (disease r) = Inr (alt_disease_info a)"
      using a(1) by simp
  qed
  have first: "length (alternate_diseases resp) = 3 \<and> alt_name (hd (alternate_diseases resp)) = disease r"
    if p: "predict ms img = Inr r" "probabilities_of ms img = Inr probs" "length probs = 6"
  proof -
    note t = top_is_confidence [OF p]
    have l3: "length (alternate_diseases resp) = 3"
      using len t(4) by simp
    have sne: "sorted_predictions_of (all_predictions r) \<noteq> []"
      using True by (simp add: sorted_predictions_Nil)
    have "hd (map alt_name (alternate_diseases resp)) = fst (hd (sorted_predictions_of (all_predictions r)))"
      using names sne by (simp add: hd_map take_Suc numeral_3_eq_3 split: list.splits)
    moreover have "alternate_diseases resp \<noteq> []" using l3 by auto
    ultimately show ?thesis using l3 t(3) by (simp add: hd_map)
  qed
  show ?thesis using pairs probs reuse a(4) names len first by auto
qed

theorem candidates_of_ambiguous_result_witness:
  "analyze_core offline_source failing_loads scenario_prediction
     = Inr (scenario_response, [''Melanoma'', ''SCC'', ''BCC''])
   \<and> is_low_confidence scenario_response
   \<and> predict scenario_model () = Inr scenario_prediction
   \<and> map alt_name (alternate_diseases scenario_response) = [''Melanoma'', ''SCC'', ''BCC'']
   \<and> alt_name (hd (alternate_diseases scenario_response)) = disease scenario_prediction
   \<and> length (alternate_diseases scenario_response) = 3"
proof -
  have p: "probabilities_of scenario_model () = Inr scenario_probabilities"
    by (simp add: scenario_model_def)
  have l: "length scenario_probabilities = 6"
    by (simp add: scenario_probabilities_def)
  have low: "is_low_confidence scenario_response"
    by (simp add: scenario_response_def)
  have n: "map alt_name (alternate_diseases scenario_response) = [''Melanoma'', ''SCC'', ''BCC'']"
    by (simp add: scenario_response_def)
  show ?thesis
    using candidates_of_ambiguous_result
      [OF scenario_core, of scenario_model "()" scenario_probabilities]
      scenario_core scenario_predict p l low n
    by simp
qed

text \<open>
  C5. An empty probability vector from the classifier never becomes an analysis
  result: \<^verbatim>\<open>predict\<close> raises ValueError, no primary is reported, and each endpoint
  signals the failure to its caller as an HTTPException of status 500 that names the
  cause. Every response that \<^verbatim>\<open>/analyze\<close> does return carries the six categories.
\<close>

theorem empty_classifier_output_is_an_error:
  "(is_loaded ms \<and> model_present ms \<and> probabilities_of ms img = Inr [] \<longrightarrow>
      predict ms img = Inl (ValueError ''attempt to get argmax of an empty sequence'')
    \<and> (content_type file = Some ct \<and> ct \<noteq> [] \<and> startswith ct ''image/''
          \<and> decoded_image file = Inr img \<longrightarrow>
        analyze_scan ms ks loads file
          = Inl (HTTPException 500
                  ''Error analyzing image: attempt to get argmax of an empty sequence''))
    \<and> (image_base64 \<noteq> [] \<and> decode (after_comma image_base64) = Inr img \<longrightarrow>
        analyze_scan_base64 ms ks loads decode image_base64
          = Inl (HTTPException 500
                  ''Error analyzing image: attempt to get argmax of an empty sequence'')))
   \<and> (\<forall>resp calls. analyze_scan ms ks loads file = Inr (resp, calls) \<longrightarrow>
          length (r_all_predictions resp) = 6)"
proof -
  have p: "predict ms img = Inl (ValueError ''attempt to get argmax of an empty sequence'')"
    if "is_loaded ms" "model_present ms" "probabilities_of ms img = Inr []"
    using that by (simp add: predict_def)
  have a: "analyze_scan ms ks loads file
          = Inl (HTTPException 500
                  ''Error analyzing image: attempt to get argmax of an empty sequence'')"
    if "predict ms img = Inl (ValueError ''attempt to get argmax of an empty sequence'')"
      "content_type file = Some ct" "ct \<noteq> []" "startswith ct ''image/''"
      "decoded_image file = Inr img"
    using that by (simp add: analyze_scan_def internal_error_def)
  have b: "analyze_scan_base64 ms ks loads decode image_base64
          = Inl (HTTPException 500
                  ''Error analyzing image: attempt to get argmax of an empty sequence'')"
    if "predict ms img = Inl (ValueError ''attempt to get argmax of an empty sequence'')"
      "image_base64 \<noteq> []" "decode (after_comma image_base64) = Inr img"
    using that by (simp add: analyze_scan_base64_def internal_error_def)
  have c: "length (r_all_predictions resp) = 6"
    if h: "analyze_scan ms ks loads file = Inr (resp, calls)" for resp calls
  proof -
    obtain img' r where r: "predict ms img' = Inr r" "analyze_core ks loads r = Inr (resp, calls)"
      using analyze_scan_Inr [OF h] by blast
    show ?thesis
      using predict_six_categories [OF r(1)] analyze_core_fields(2) [OF r(2)] by simp
  qed
  show ?thesis using p a b c by blast
qed

theorem empty_classifier_output_is_an_error_witness:
  "predict empty_model () = Inl (ValueError ''attempt to get argmax of an empty sequence'')
   \<and> analyze_scan empty_model offline_source failing_loads scenario_upload
       = Inl (HTTPException 500
               ''Error analyzing image: attempt to get argmax of an empty sequence'')"
proof -
  have m: "is_loaded empty_model" "model_present empty_model"
      "probabilities_of empty_model () = Inr []"
    by (simp_all add: empty_model_def)
  have u: "content_type scenario_upload = Some ''image/png''"
      "decoded_image scenario_upload = Inr ()"
    by (simp_all add: scenario_upload_def)
  have s: "startswith ''image/png'' ''image/''"
    by (simp add: startswith_def)
  show ?thesis
    using empty_classifier_output_is_an_error
      [of empty_model "()" scenario_upload "''image/png''" offline_source failing_loads]
      m u s
    by simp
qed

text \<open>
  C6. For a distribution with a single entry whose probability is the reported
  confidence, the second probability is 0 and the result is low-confidence exactly
  when that probability is below 0.70: the margin rule never decides.
\<close>

theorem single_category_rule:
  assumes "all_predictions r = [(c, p)]" and "confidence r = p"
  shows "second_prediction_of (sorted_predictions_of (all_predictions r)) = 0
       \<and> low_confidence_analyze r = (p < 0.70)
       \<and> low_confidence_base64 r = (p < 0.70)
       \<and> (\<exists>resp calls. analyze_core ks loads r = Inr (resp, calls)
              \<and> is_low_confidence resp = (p < 0.70))"
proof -
  have s: "sorted_predictions_of (all_predictions r) = [(c, p)]"
    using assms(1) by (simp add: sorted_predictions_of_def)
  have 2: "second_prediction_of (sorted_predictions_of (all_predictions r)) = 0"
    using s by (simp add: second_prediction_of_def)
  have 1: "top_prediction_of (sorted_predictions_of (all_predictions r)) = p"
    using s by (simp add: top_prediction_of_def)
  have a: "low_confidence_analyze r = (p < 0.70)"
    unfolding low_confidence_analyze_def Let_def CONFIDENCE_THRESHOLD_def
    using 1 2 assms(2) by auto
  have b: "low_confidence_base64 r = (p < 0.70)"
    unfolding low_confidence_base64_def Let_def CONFIDENCE_THRESHOLD_def
    using 1 2 assms(2) by auto
  obtain resp calls where rc: "analyze_core ks loads r = Inr (resp, calls)"
    using analyze_core_returns by blast
  have "is_low_confidence resp = low_confidence_analyze r"
    using analyze_core_Inr [OF rc] by auto
  then show ?thesis using 2 a b rc by auto
qed

theorem single_category_rule_witness:
  "\<not> low_confidence_analyze
        \<lparr>disease = ''Acne'', confidence = 0.9, predicted_class_id = 0,
         all_predictions = [(''Acne'', 0.9)]\<rparr>
   \<and> low_confidence_analyze
        \<lparr>disease = ''Acne'', confidence = 0.5, predicted_class_id = 0,
         all_predictions = [(''Acne'', 0.5)]\<rparr>"
  using single_category_rule
      [of "\<lparr>disease = ''Acne'', confidence = 0.9, predicted_class_id = 0,
             all_predictions = [(''Acne'', 0.9)]\<rparr>" "''Acne''" "0.9" offline_source failing_loads]
    single_category_rule
      [of "\<lparr>disease = ''Acne'', confidence = 0.5, predicted_class_id = 0,
             all_predictions = [(''Acne'', 0.5)]\<rparr>" "''Acne''" "0.5" offline_source failing_loads]
  by simp

text \<open>
  C9. The two endpoints decide by the same rule: their decisions agree on every
  prediction, so do their responses, and on the same image with a valid request so do
  the endpoints. For a classifier that returns one probability per category the
  decision and the primary are those of the canonical rule of the specification.
\<close>

theorem endpoints_share_canonical_rule:
  "low_confidence_analyze r = low_confidence_base64 r
   \<and> analyze_core ks loads r = analyze_base64_core ks loads r
   \<and> (content_type file = Some ct \<and> ct \<noteq> [] \<and> startswith ct ''image/''
        \<and> image_base64 \<noteq> [] \<and> decode (after_comma image_base64) = decoded_image file \<longrightarrow>
        analyze_scan ms ks loads file = analyze_scan_base64 ms ks loads decode image_base64)
   \<and> (predict ms img = Inr r \<and> probabilities_of ms img = Inr probs \<and> length probs = 6 \<longrightarrow>
        (\<exists>cands. spec_classify (all_predictions r) 0.70 0.20 3
                    = Inr (disease r, low_confidence_analyze r, cands)))"
proof -
  have e: "content_type file = Some ct \<and> ct \<noteq> [] \<and> startswith ct ''image/''
        \<and> image_base64 \<noteq> [] \<and> decode (after_comma image_base64) = decoded_image file \<longrightarrow>
        analyze_scan ms ks loads file = analyze_scan_base64 ms ks loads decode image_base64"
    unfolding analyze_scan_def analyze_scan_base64_def cores_same
    by simp
  have c: "predict ms img = Inr r \<and> probabilities_of ms img = Inr probs \<and> length probs = 6 \<longrightarrow>
        (\<exists>cands. spec_classify (all_predictions r) 0.70 0.20 3
                    = Inr (disease r, low_confidence_analyze r, cands))"
  proof (intro impI, elim conjE)
    assume "predict ms img = Inr r" "probabilities_of ms img = Inr probs" "length probs = 6"
    then show "\<exists>cands. spec_classify (all_predictions r) 0.70 0.20 3
                    = Inr (disease r, low_confidence_analyze r, cands)"
      by (rule spec_classify_predict)
  qed
  have a: "low_confidence_analyze r = low_confidence_base64 r"
    by (rule low_confidence_same)
  have b: "analyze_core ks loads r = analyze_base64_core ks loads r"
    by (rule cores_same)
  show ?thesis
    using a b e c by (intro conjI)
qed

theorem endpoints_share_canonical_rule_witness:
  "analyze_scan scenario_model offline_source failing_loads scenario_upload
     = analyze_scan_base64 scenario_model offline_source failing_loads (\<lambda>b. Inr ())
         ''data:image/png;base64,iVBORw0KGgo=''
   \<and> (\<exists>cands. spec_classify (all_predictions scenario_prediction) 0.70 0.20 3
                 = Inr (''Melanoma'', True, cands))"
proof -
  have p: "probabilities_of scenario_model () = Inr scenario_probabilities"
    by (simp add: scenario_model_def)
  have l: "length scenario_probabilities = 6"
    by (simp add: scenario_probabilities_def)
  have c: "content_type scenario_upload = Some ''image/png''" "decoded_image scenario_upload = Inr ()"
    by (simp_all add: scenario_upload_def)
  have s: "startswith ''image/png'' ''image/''"
    by (simp add: startswith_def)
  have d: "disease scenario_prediction = ''Melanoma''"
    by (simp add: scenario_prediction_def)
  show ?thesis
    using endpoints_share_canonical_rule
      [of scenario_prediction offline_source failing_loads scenario_upload "''image/png''"
          "''data:image/png;base64,iVBORw0KGgo=''" "\<lambda>b. Inr ()" scenario_model "()"
          scenario_probabilities]
      p l c s d scenario_predict scenario_low
    by simp
qed

end
